theory Spec2Isabelle
  imports Main "HOL-Library.AList"
begin

section \<open>JavaScript data\<close>

text \<open>
  Bodies of HTTP responses and tool arguments are JSON data.  A property read that
  finds nothing yields \<open>undefined\<close>, which is \<open>None\<close> of \<open>json option\<close>.  Objects are
  association lists in insertion order with distinct keys.  Numbers are the integers
  a double holds exactly (magnitude below \<open>2^53\<close>); fractions and larger numbers are not
  represented.
\<close>

datatype json =
    Null
  | Bool bool
  | Num int
  | Str string
  | Arr "json list"
  | Obj "(string \<times> json) list"

text \<open>
  Values that can be thrown and caught.  Besides plain data they comprise instances of
  the error classes the program meets; an instance carries its class, its
  \<open>message\<close> and its further data properties.
\<close>

datatype err_class =
    ErrorC
  | TypeErrorC
  | AxiosErrorC
  | ZodErrorC
  | DoorayAPIErrorC
  | AuthenticationErrorC
  | ValidationErrorC

datatype jsval =
    JUndefined
  | JNull
  | JBool bool
  | JNum int
  | JStr string
  | JArr "jsval list"
  | JObj "(string \<times> jsval) list"
  | JError err_class string "(string \<times> jsval) list"

fun of_json :: "json \<Rightarrow> jsval" where
  "of_json Null = JNull"
| "of_json (Bool b) = JBool b"
| "of_json (Num n) = JNum n"
| "of_json (Str s) = JStr s"
| "of_json (Arr xs) = JArr (map of_json xs)"
| "of_json (Obj fs) = JObj (map (\<lambda>(k, v). (k, of_json v)) fs)"

definition of_json_opt :: "json option \<Rightarrow> jsval" where
  "of_json_opt x = (case x of None \<Rightarrow> JUndefined | Some j \<Rightarrow> of_json j)"

subsection \<open>Printing numbers and joining strings\<close>

definition digit_char :: "nat \<Rightarrow> char" where
  "digit_char n = ''0123456789'' ! n"

fun show_nat :: "nat \<Rightarrow> string" where
  "show_nat n = (if n < 10 then [digit_char n] else show_nat (n div 10) @ [digit_char (n mod 10)])"

declare show_nat.simps [simp del]

definition show_int :: "int \<Rightarrow> string" where
  "show_int i = (if i < 0 then ''-'' @ show_nat (nat (- i)) else show_nat (nat i))"

text \<open>The value of a string of decimal digits.\<close>

definition digit_value :: "char \<Rightarrow> nat" where
  "digit_value c = (case find (\<lambda>i. digit_char i = c) [0..<10] of Some i \<Rightarrow> i | None \<Rightarrow> 0)"

definition digits_value :: "string \<Rightarrow> nat" where
  "digits_value ds = foldl (\<lambda>acc c. 10 * acc + digit_value c) 0 ds"

text \<open>\<open>Array.prototype.join\<close> on strings already converted.\<close>

fun join :: "string \<Rightarrow> string list \<Rightarrow> string" where
  "join sep [] = []"
| "join sep [x] = x"
| "join sep (x # y # ys) = x @ sep @ join sep (y # ys)"

subsection \<open>Truthiness, ToString and property reads\<close>

fun nullish :: "jsval \<Rightarrow> bool" where
  "nullish JUndefined = True"
| "nullish JNull = True"
| "nullish _ = False"

fun truthy :: "jsval \<Rightarrow> bool" where
  "truthy JUndefined = False"
| "truthy JNull = False"
| "truthy (JBool b) = b"
| "truthy (JNum n) = (n \<noteq> 0)"
| "truthy (JStr s) = (s \<noteq> [])"
| "truthy _ = True"

fun class_name :: "err_class \<Rightarrow> string" where
  "class_name ErrorC = ''Error''"
| "class_name TypeErrorC = ''TypeError''"
| "class_name AxiosErrorC = ''AxiosError''"
| "class_name ZodErrorC = ''ZodError''"
| "class_name DoorayAPIErrorC = ''DoorayAPIError''"
| "class_name AuthenticationErrorC = ''AuthenticationError''"
| "class_name ValidationErrorC = ''ValidationError''"

text \<open>
  ToString.  An array joins its elements with a comma, \<open>null\<close> and \<open>undefined\<close>
  elements printing as nothing; a plain object prints as \<open>[object Object]\<close>; an error
  prints through \<open>Error.prototype.toString\<close>.
\<close>

fun to_string :: "jsval \<Rightarrow> string" where
  "to_string JUndefined = ''undefined''"
| "to_string JNull = ''null''"
| "to_string (JBool b) = (if b then ''true'' else ''false'')"
| "to_string (JNum n) = show_int n"
| "to_string (JStr s) = s"
| "to_string (JArr xs) = join '','' (map (\<lambda>x. if nullish x then [] else to_string x) xs)"
| "to_string (JObj fs) = ''[object Object]''"
| "to_string (JError c m ps) = (if m = [] then class_name c else class_name c @ '': '' @ m)"

definition index_of_key :: "nat \<Rightarrow> string \<Rightarrow> nat option" where
  "index_of_key n k = find (\<lambda>i. show_nat i = k) [0..<n]"

text \<open>
  Reading a data property of a value that is neither \<open>null\<close> nor \<open>undefined\<close>.
  A \<open>ZodError\<close> keeps its issues in \<open>issues\<close> and answers \<open>errors\<close> with the same list.
\<close>

fun get_prop :: "jsval \<Rightarrow> string \<Rightarrow> jsval" where
  "get_prop (JObj fs) k = (case map_of fs k of Some v \<Rightarrow> v | None \<Rightarrow> JUndefined)"
| "get_prop (JError c m ps) k =
     (if k = ''message'' then JStr m
      else if k = ''name'' then JStr (class_name c)
      else case map_of ps k of
             Some v \<Rightarrow> v
           | None \<Rightarrow> (if c = ZodErrorC \<and> k = ''errors''
                      then (case map_of ps ''issues'' of Some v \<Rightarrow> v | None \<Rightarrow> JUndefined)
                      else JUndefined))"
| "get_prop (JArr xs) k =
     (if k = ''length'' then JNum (int (length xs))
      else case index_of_key (length xs) k of Some i \<Rightarrow> xs ! i | None \<Rightarrow> JUndefined)"
| "get_prop (JStr s) k =
     (if k = ''length'' then JNum (int (length s))
      else case index_of_key (length s) k of Some i \<Rightarrow> JStr [s ! i] | None \<Rightarrow> JUndefined)"
| "get_prop _ k = JUndefined"

fun json_get :: "json \<Rightarrow> string \<Rightarrow> json option" where
  "json_get (Obj fs) k = map_of fs k"
| "json_get (Arr xs) k =
     (if k = ''length'' then Some (Num (int (length xs)))
      else case index_of_key (length xs) k of Some i \<Rightarrow> Some (xs ! i) | None \<Rightarrow> None)"
| "json_get (Str s) k =
     (if k = ''length'' then Some (Num (int (length s)))
      else case index_of_key (length s) k of Some i \<Rightarrow> Some (Str [s ! i]) | None \<Rightarrow> None)"
| "json_get _ k = None"

text \<open>Optional chaining \<open>x?.k\<close> on data.\<close>

fun opt_chain :: "json option \<Rightarrow> string \<Rightarrow> json option" where
  "opt_chain None k = None"
| "opt_chain (Some Null) k = None"
| "opt_chain (Some j) k = json_get j k"

definition truthy_j :: "json option \<Rightarrow> bool" where
  "truthy_j x = truthy (of_json_opt x)"

definition TypeError :: "string \<Rightarrow> jsval" where
  "TypeError message = JError TypeErrorC message []"

text \<open>The error of reading a property of \<open>null\<close> or \<open>undefined\<close>, with the message of V8.\<close>

definition cannot_read :: "jsval \<Rightarrow> string \<Rightarrow> jsval" where
  "cannot_read v k =
     TypeError (''Cannot read properties of '' @ to_string v @ '' (reading '' @ [CHR 0x27] @ k
                @ [CHR 0x27] @ '')'')"

section \<open>Error classes (utils/errors.ts)\<close>

definition DoorayAPIError :: "string \<Rightarrow> jsval \<Rightarrow> jsval \<Rightarrow> jsval" where
  "DoorayAPIError message statusCode responseData =
     JError DoorayAPIErrorC message [(''statusCode'', statusCode), (''responseData'', responseData)]"

definition AuthenticationError :: "string \<Rightarrow> jsval" where
  "AuthenticationError message =
     JError AuthenticationErrorC message [(''statusCode'', JNum 401), (''responseData'', JUndefined)]"

definition ValidationError :: "string \<Rightarrow> jsval" where
  "ValidationError message = JError ValidationErrorC message []"

fun instanceof_Error :: "jsval \<Rightarrow> bool" where
  "instanceof_Error (JError c m ps) = True"
| "instanceof_Error _ = False"

fun instanceof_DoorayAPIError :: "jsval \<Rightarrow> bool" where
  "instanceof_DoorayAPIError (JError c m ps) = (c = DoorayAPIErrorC \<or> c = AuthenticationErrorC)"
| "instanceof_DoorayAPIError _ = False"

fun instanceof_ValidationError :: "jsval \<Rightarrow> bool" where
  "instanceof_ValidationError (JError c m ps) = (c = ValidationErrorC)"
| "instanceof_ValidationError _ = False"

definition formatError :: "jsval \<Rightarrow> string" where
  "formatError error =
     (if instanceof_DoorayAPIError error then
        (let details = (if truthy (get_prop error ''statusCode'')
                        then '' (Status: '' @ to_string (get_prop error ''statusCode'') @ '')''
                        else [])
         in ''Dooray API Error: '' @ to_string (get_prop error ''message'') @ details)
      else if instanceof_ValidationError error then
        ''Validation Error: '' @ to_string (get_prop error ''message'')
      else if instanceof_Error error then to_string (get_prop error ''message'')
      else to_string error)"

section \<open>HTTP responses and the envelope (api/client.ts)\<close>

text \<open>
  What axios hands to the program for one response: the status, the parsed body and
  the headers under lower-case names.  A binary body is carried as a \<open>Str\<close> of its
  bytes.
\<close>

record http_response =
  status :: nat
  data :: json
  headers :: "(string \<times> string) list"

text \<open>
  \<open>extractResult\<close>: the destructuring of \<open>response.data\<close> fails on \<open>null\<close>, the read of
  \<open>header.isSuccessful\<close> fails when \<open>header\<close> is \<open>null\<close> or \<open>undefined\<close>.  \<open>Inl\<close> is the
  value thrown.
\<close>

definition extractResult :: "http_response \<Rightarrow> jsval + json option" where
  "extractResult response =
     (if data response = Null then
        Inl (TypeError (''Cannot destructure property '' @ [CHR 0x27] @ ''header'' @ [CHR 0x27]
                        @ '' of '' @ [CHR 0x27] @ ''response.data'' @ [CHR 0x27]
                        @ '' as it is null.''))
      else
        let header = json_get (data response) ''header'';
            result = json_get (data response) ''result''
        in case header of
             None \<Rightarrow> Inl (cannot_read JUndefined ''isSuccessful'')
           | Some Null \<Rightarrow> Inl (cannot_read JNull ''isSuccessful'')
           | Some h \<Rightarrow>
               if \<not> truthy_j (json_get h ''isSuccessful'') then
                 Inl (DoorayAPIError
                        (to_string (if truthy_j (json_get h ''resultMessage'')
                                    then of_json_opt (json_get h ''resultMessage'')
                                    else JStr ''API request failed''))
                        (JNum (int (status response)))
                        (of_json (data response)))
               else Inr result)"

section \<open>Requests and the remote service\<close>

text \<open>
  A request is the axios configuration of one call: \<open>None\<close> for \<open>maxRedirects\<close>,
  \<open>timeout\<close> or \<open>responseType\<close> is the library's default.  The function that decides
  which statuses resolve (\<open>validateStatus\<close>) is passed beside the request.
\<close>

datatype http_method = GET | POST | PUT | PATCH | DELETE

type_synonym form_data = "(string \<times> string \<times> string) list"

datatype req_body = NoBody | JsonBody json | FormBody form_data

record request =
  http_method :: http_method
  baseURL :: "string option"
  url :: string
  params :: "(string \<times> json) list option"
  body :: req_body
  req_headers :: "(string \<times> string) list"
  timeout :: "nat option"
  maxRedirects :: "nat option"
  responseType :: "string option"

text \<open>
  What becomes of one call of the HTTP client: a response; no response (a network fault
  or a timeout); a URL that does not parse, in which case nothing is sent; or a refusal
  by the client before anything is sent (a protocol it does not support).
\<close>

datatype net_outcome = Response http_response | NetworkError string | InvalidURL | Unsent string

text \<open>
  The world outside the process.  \<open>service\<close> answers a call depending on the requests
  issued so far; for a call that follows redirects the answer is the last one, and
  \<open>hops\<close> lists the further requests the HTTP library issued on the way (none when the
  first answer is no redirect).  \<open>resolve base ref\<close> is the absolute URL of a reference
  (RFC 3986).  \<open>sent\<close> records every request issued, those of the library included.
  The environment and the file system are read by the handlers that shell out.
\<close>

record world =
  service :: "request list \<Rightarrow> request \<Rightarrow> net_outcome"
  hops :: "request list \<Rightarrow> request \<Rightarrow> request list"
  resolve :: "string \<Rightarrow> string \<Rightarrow> string"
  sent :: "request list"
  env :: "string \<Rightarrow> string option"
  files :: "string \<Rightarrow> string option"

subsection \<open>The URL of a call (axios: buildFullPath, combineURLs; the URL constructor)\<close>

definition is_digit :: "char \<Rightarrow> bool" where
  "is_digit c = (c \<in> set ''0123456789'')"

definition is_alpha :: "char \<Rightarrow> bool" where
  "is_alpha c = (c \<in> set ''abcdefghijklmnopqrstuvwxyzABCDEFGHIJKLMNOPQRSTUVWXYZ'')"

definition is_scheme_char :: "char \<Rightarrow> bool" where
  "is_scheme_char c = (is_alpha c \<or> is_digit c \<or> c \<in> set ''+-.'')"

text \<open>\<open>isAbsoluteURL\<close>: an optional scheme followed by two slashes.\<close>

definition isAbsoluteURL :: "string \<Rightarrow> bool" where
  "isAbsoluteURL u =
     (take 2 u = ''//''
      \<or> (case u of
            [] \<Rightarrow> False
          | c # cs \<Rightarrow> is_alpha c \<and> take 3 (dropWhile is_scheme_char cs) = ''://''))"

text \<open>
  \<open>combineURLs\<close>: the base without one or two trailing slashes, a slash, and the
  relative URL without its leading slashes; the base alone when the relative URL is empty.
\<close>

definition combineURLs :: "string \<Rightarrow> string \<Rightarrow> string" where
  "combineURLs b u =
     (if u = [] then b
      else (case rev b of
              CHR ''/'' # CHR ''/'' # rest \<Rightarrow> rev rest
            | CHR ''/'' # rest \<Rightarrow> rev rest
            | _ \<Rightarrow> b)
           @ ''/'' @ dropWhile (\<lambda>c. c = CHR ''/'') u)"

definition target :: "request \<Rightarrow> string" where
  "target req =
     (case baseURL req of
        None \<Rightarrow> url req
      | Some b \<Rightarrow> if b \<noteq> [] \<and> \<not> isAbsoluteURL (url req) then combineURLs b (url req) else url req)"

text \<open>
  The URL constructor without a base fails on a string without a scheme.  Before it looks
  for the scheme it drops control characters and spaces at both ends and every tab and
  line break.
\<close>

definition c0_or_space :: "char \<Rightarrow> bool" where
  "c0_or_space c = ((of_char c :: nat) \<le> 32)"

definition url_input :: "string \<Rightarrow> string" where
  "url_input s =
     filter (\<lambda>c. c \<notin> set [CHR 0x09, CHR 0x0A, CHR 0x0D])
       (rev (dropWhile c0_or_space (rev (dropWhile c0_or_space s))))"

definition has_scheme :: "string \<Rightarrow> bool" where
  "has_scheme s =
     (case url_input s of
        [] \<Rightarrow> False
      | c # cs \<Rightarrow>
          is_alpha c \<and> (case dropWhile is_scheme_char cs of [] \<Rightarrow> False | d # ds \<Rightarrow> d = CHR '':''))"

text \<open>
  What becomes of a call made through axios: without a scheme in its URL it is never
  sent; otherwise the world decides (it may still find the URL invalid or the protocol
  unsupported).
\<close>

definition remote :: "world \<Rightarrow> request list \<Rightarrow> request \<Rightarrow> net_outcome" where
  "remote w seen req = (if has_scheme (target req) then service w seen req else InvalidURL)"

datatype axios_failure = BadStatus http_response | NoResponse string | BadURL

text \<open>
  One axios call.  A response whose status \<open>validateStatus\<close> rejects, or no response
  at all, rejects the promise; so does a URL that does not parse.  The request is
  recorded when it goes out, followed by the requests of the redirects the library
  follows, which it does unless \<open>maxRedirects\<close> is 0.
\<close>

definition settle :: "(nat \<Rightarrow> bool) \<Rightarrow> net_outcome \<Rightarrow> axios_failure + http_response" where
  "settle validateStatus out =
     (case out of
        NetworkError m \<Rightarrow> Inl (NoResponse m)
      | Unsent m \<Rightarrow> Inl (NoResponse m)
      | InvalidURL \<Rightarrow> Inl BadURL
      | Response r \<Rightarrow> if validateStatus (status r) then Inr r else Inl (BadStatus r))"

fun went_out :: "net_outcome \<Rightarrow> bool" where
  "went_out (Response r) = True"
| "went_out (NetworkError m) = True"
| "went_out InvalidURL = False"
| "went_out (Unsent m) = False"

definition followed :: "world \<Rightarrow> request \<Rightarrow> request list" where
  "followed w req = (if maxRedirects req = Some 0 then [] else hops w (sent w) req)"

text \<open>The requests that one call puts on the wire.\<close>

definition issued :: "world \<Rightarrow> request \<Rightarrow> request list" where
  "issued w req = (if went_out (remote w (sent w) req) then req # followed w req else [])"

definition axios_request ::
    "(nat \<Rightarrow> bool) \<Rightarrow> request \<Rightarrow> world \<Rightarrow> (axios_failure + http_response) \<times> world" where
  "axios_request validateStatus req w =
     (settle validateStatus (remote w (sent w) req), w\<lparr>sent := sent w @ issued w req\<rparr>)"

definition default_validateStatus :: "nat \<Rightarrow> bool" where
  "default_validateStatus s = (200 \<le> s \<and> s < 300)"

text \<open>
  What axios rejects with when no interceptor replaces it: its own error, or the
  \<open>TypeError\<close> of the URL constructor.
\<close>

definition response_js :: "http_response \<Rightarrow> jsval" where
  "response_js r =
     JObj [(''status'', JNum (int (status r))),
           (''data'', of_json (data r)),
           (''headers'', JObj (map (\<lambda>(k, v). (k, JStr v)) (headers r)))]"

fun AxiosError :: "axios_failure \<Rightarrow> jsval" where
  "AxiosError (BadStatus r) =
     JError AxiosErrorC (''Request failed with status code '' @ show_nat (status r))
       [(''response'', response_js r)]"
| "AxiosError (NoResponse m) = JError AxiosErrorC m []"
| "AxiosError BadURL = TypeError ''Invalid URL''"

section \<open>The client (api/client.ts)\<close>

text \<open>
  The client is created once, before the server starts serving, from a configuration
  with a non-empty token; the functions below take that configuration.
\<close>

record DoorayConfig =
  apiToken :: string
  baseUrl :: "string option"

definition DEFAULT_BASE_URL :: string where
  "DEFAULT_BASE_URL = ''https://api.dooray.com''"

text \<open>\<open>config.baseUrl || DEFAULT_BASE_URL\<close>: an absent or empty override is falsy.\<close>

definition base_url :: "DoorayConfig \<Rightarrow> string" where
  "base_url config =
     (case baseUrl config of None \<Rightarrow> DEFAULT_BASE_URL
      | Some b \<Rightarrow> if b = [] then DEFAULT_BASE_URL else b)"

text \<open>Object spread \<open>{...a, ...b}\<close> on header objects.\<close>

definition spread :: "(string \<times> string) list \<Rightarrow> (string \<times> string) list \<Rightarrow> (string \<times> string) list" where
  "spread a b = fold (\<lambda>(k, v). AList.update k v) b a"

definition js_or :: "json option \<Rightarrow> json option \<Rightarrow> json option" where
  "js_or a b = (if truthy_j a then a else b)"

text \<open>The response interceptor's rejection branch.\<close>

fun response_interceptor_error :: "axios_failure \<Rightarrow> jsval" where
  "response_interceptor_error (BadStatus r) =
     (if status r = 401 then AuthenticationError ''Invalid or expired API token''
      else
        let message = js_or (opt_chain (opt_chain (Some (data r)) ''header'') ''resultMessage'')
                        (js_or (opt_chain (Some (data r)) ''message'')
                           (Some (Str ''API request failed'')))
        in DoorayAPIError (to_string (of_json_opt message)) (JNum (int (status r))) (of_json (data r)))"
| "response_interceptor_error (NoResponse m) =
     DoorayAPIError (''Network error: '' @ m) JUndefined JUndefined"
| "response_interceptor_error BadURL =
     DoorayAPIError (''Network error: '' @ ''Invalid URL'') JUndefined JUndefined"

text \<open>
  A call through \<open>this.client\<close>: base URL, the JSON content type, the \<open>Authorization\<close>
  header set by the request interceptor, the default \<open>validateStatus\<close>, and the response
  interceptor.
\<close>

definition base_request ::
    "DoorayConfig \<Rightarrow> http_method \<Rightarrow> string \<Rightarrow> (string \<times> json) list option \<Rightarrow> req_body \<Rightarrow>
     (string \<times> string) list \<Rightarrow> request" where
  "base_request config m u ps b hs =
     \<lparr>http_method = m, baseURL = Some (base_url config), url = u, params = ps, body = b,
      req_headers = AList.update ''Authorization'' (''dooray-api '' @ apiToken config)
                      (spread [(''Content-Type'', ''application/json'')] hs),
      timeout = Some 30000, maxRedirects = None, responseType = None\<rparr>"

definition client_request ::
    "DoorayConfig \<Rightarrow> http_method \<Rightarrow> string \<Rightarrow> (string \<times> json) list option \<Rightarrow> req_body \<Rightarrow>
     (string \<times> string) list \<Rightarrow> world \<Rightarrow> (jsval + http_response) \<times> world" where
  "client_request config m u ps b hs w =
     (case axios_request default_validateStatus (base_request config m u ps b hs) w of
        (Inl e, w') \<Rightarrow> (Inl (response_interceptor_error e), w')
      | (Inr r, w') \<Rightarrow> (Inr r, w'))"

definition with_result ::
    "(jsval + http_response) \<times> world \<Rightarrow> (jsval + json option) \<times> world" where
  "with_result x = (case x of (Inl e, w') \<Rightarrow> (Inl e, w') | (Inr r, w') \<Rightarrow> (extractResult r, w'))"

definition client_get ::
    "DoorayConfig \<Rightarrow> string \<Rightarrow> (string \<times> json) list option \<Rightarrow> (string \<times> string) list \<Rightarrow>
     world \<Rightarrow> (jsval + json option) \<times> world" where
  "client_get config u ps hs w = with_result (client_request config GET u ps NoBody hs w)"

definition client_post ::
    "DoorayConfig \<Rightarrow> string \<Rightarrow> req_body \<Rightarrow> (string \<times> string) list \<Rightarrow>
     world \<Rightarrow> (jsval + json option) \<times> world" where
  "client_post config u b hs w = with_result (client_request config POST u None b hs w)"

definition client_put ::
    "DoorayConfig \<Rightarrow> string \<Rightarrow> req_body \<Rightarrow> (string \<times> string) list \<Rightarrow>
     world \<Rightarrow> (jsval + json option) \<times> world" where
  "client_put config u b hs w = with_result (client_request config PUT u None b hs w)"

definition client_patch ::
    "DoorayConfig \<Rightarrow> string \<Rightarrow> req_body \<Rightarrow> (string \<times> string) list \<Rightarrow>
     world \<Rightarrow> (jsval + json option) \<times> world" where
  "client_patch config u b hs w = with_result (client_request config PATCH u None b hs w)"

definition client_delete ::
    "DoorayConfig \<Rightarrow> string \<Rightarrow> (string \<times> string) list \<Rightarrow>
     world \<Rightarrow> (jsval + json option) \<times> world" where
  "client_delete config u hs w = with_result (client_request config DELETE u None NoBody hs w)"

text \<open>\<open>extractPaginatedResult\<close> and \<open>getPaginated\<close>: the same check, with the total beside the list.\<close>

record paginated =
  totalCount :: "json option"
  pg_data :: "json option"

definition extractPaginatedResult :: "http_response \<Rightarrow> jsval + paginated" where
  "extractPaginatedResult response =
     (case extractResult response of
        Inl e \<Rightarrow> Inl e
      | Inr result \<Rightarrow>
          Inr \<lparr>totalCount = json_get (data response) ''totalCount'', pg_data = result\<rparr>)"

definition with_paginated ::
    "(jsval + http_response) \<times> world \<Rightarrow> (jsval + paginated) \<times> world" where
  "with_paginated x =
     (case x of (Inl e, w') \<Rightarrow> (Inl e, w') | (Inr r, w') \<Rightarrow> (extractPaginatedResult r, w'))"

definition client_getPaginated ::
    "DoorayConfig \<Rightarrow> string \<Rightarrow> (string \<times> json) list option \<Rightarrow> world \<Rightarrow>
     (jsval + paginated) \<times> world" where
  "client_getPaginated config u ps w = with_paginated (client_request config GET u ps NoBody [] w)"

subsection \<open>Transfers with the 307 step\<close>

definition transfer_validateStatus :: "nat \<Rightarrow> bool" where
  "transfer_validateStatus s = (s = 307 \<or> (200 \<le> s \<and> s < 300))"

definition full_url :: "DoorayConfig \<Rightarrow> string \<Rightarrow> string" where
  "full_url config u = (if take 4 u = ''http'' then u else base_url config @ u)"

definition no_location :: jsval where
  "no_location =
     DoorayAPIError ''307 redirect received but no Location header found'' JUndefined JUndefined"

definition uploadFile ::
    "DoorayConfig \<Rightarrow> string \<Rightarrow> form_data \<Rightarrow> (string \<times> string) list \<Rightarrow> world \<Rightarrow>
     (jsval + json) \<times> world" where
  "uploadFile config u formData hs w =
     (let fullUrl = full_url config u;
          authHeader = ''dooray-api '' @ apiToken config;
          req1 = \<lparr>http_method = POST, baseURL = None, url = fullUrl, params = None,
                  body = FormBody formData,
                  req_headers = spread [(''Authorization'', authHeader)] hs,
                  timeout = Some 60000, maxRedirects = Some 0, responseType = None\<rparr>
      in case axios_request transfer_validateStatus req1 w of
           (Inl e, w1) \<Rightarrow> (Inl (AxiosError e), w1)
         | (Inr initialResponse, w1) \<Rightarrow>
             if status initialResponse \<noteq> 307 then (Inr (data initialResponse), w1)
             else
               (case map_of (headers initialResponse) ''location'' of
                  None \<Rightarrow> (Inl no_location, w1)
                | Some locationUrl \<Rightarrow>
                    if locationUrl = [] then (Inl no_location, w1)
                    else
                      (let req2 = \<lparr>http_method = POST, baseURL = None, url = locationUrl, params = None,
                                   body = FormBody formData,
                                   req_headers = spread [(''Authorization'', authHeader)] hs,
                                   timeout = Some 60000, maxRedirects = None, responseType = None\<rparr>
                      in (case axios_request default_validateStatus req2 w1 of
                            (Inl e, w2) \<Rightarrow> (Inl (AxiosError e), w2)
                          | (Inr response, w2) \<Rightarrow> (Inr (data response), w2)))))"

text \<open>\<open>parseInt(s, 10)\<close>; \<open>None\<close> is \<open>NaN\<close>.\<close>

definition is_space :: "char \<Rightarrow> bool" where
  "is_space c = (c \<in> set [CHR '' '', CHR 0x09, CHR 0x0A, CHR 0x0B, CHR 0x0C, CHR 0x0D])"

definition parseInt :: "string \<Rightarrow> int option" where
  "parseInt s =
     (let t = dropWhile is_space s;
          negative = (t \<noteq> [] \<and> hd t = CHR ''-'');
          u = (if t \<noteq> [] \<and> (hd t = CHR ''-'' \<or> hd t = CHR ''+'') then tl t else t);
          ds = takeWhile is_digit u
      in if ds = [] then None
         else Some (if negative then - int (digits_value ds) else int (digits_value ds)))"

record download_result =
  dl_data :: json
  contentType :: string
  contentDisposition :: "string option"
  contentLength :: "int option"

definition header_or :: "(string \<times> string) list \<Rightarrow> string \<Rightarrow> string \<Rightarrow> string" where
  "header_or hs k d = (case map_of hs k of None \<Rightarrow> d | Some v \<Rightarrow> if v = [] then d else v)"

definition download_of :: "http_response \<Rightarrow> download_result" where
  "download_of response =
     \<lparr>dl_data = data response,
      contentType = header_or (headers response) ''content-type'' ''application/octet-stream'',
      contentDisposition = map_of (headers response) ''content-disposition'',
      contentLength = parseInt (header_or (headers response) ''content-length'' ''0'')\<rparr>"

definition downloadFile ::
    "DoorayConfig \<Rightarrow> string \<Rightarrow> (string \<times> json) list option \<Rightarrow> world \<Rightarrow>
     (jsval + download_result) \<times> world" where
  "downloadFile config u ps w =
     (let fullUrl = full_url config u;
          authHeader = ''dooray-api '' @ apiToken config;
          req1 = \<lparr>http_method = GET, baseURL = None, url = fullUrl, params = ps, body = NoBody,
                  req_headers = [(''Authorization'', authHeader)],
                  timeout = Some 60000, maxRedirects = Some 0, responseType = Some ''arraybuffer''\<rparr>
      in case axios_request transfer_validateStatus req1 w of
           (Inl e, w1) \<Rightarrow> (Inl (AxiosError e), w1)
         | (Inr initialResponse, w1) \<Rightarrow>
             if status initialResponse \<noteq> 307 then (Inr (download_of initialResponse), w1)
             else
               (case map_of (headers initialResponse) ''location'' of
                  None \<Rightarrow> (Inl no_location, w1)
                | Some locationUrl \<Rightarrow>
                    if locationUrl = [] then (Inl no_location, w1)
                    else
                      (let req2 = \<lparr>http_method = GET, baseURL = None, url = locationUrl, params = ps,
                                   body = NoBody,
                                   req_headers = [(''Authorization'', authHeader)],
                                   timeout = Some 60000, maxRedirects = None,
                                   responseType = Some ''arraybuffer''\<rparr>
                      in (case axios_request default_validateStatus req2 w1 of
                            (Inl e, w2) \<Rightarrow> (Inl (AxiosError e), w2)
                          | (Inr response, w2) \<Rightarrow> (Inr (download_of response), w2)))))"

section \<open>Tool results and JSON text\<close>

record content_item =
  type :: string
  text' :: "string option"

record tool_result =
  content :: "content_item list"
  isError :: "bool option"

text \<open>
  The shape the protocol expects: one text item whose text is a string.  A handler
  that passes \<open>undefined\<close> to \<open>JSON.stringify\<close> produces an item without text.
\<close>

definition well_formed :: "tool_result \<Rightarrow> bool" where
  "well_formed r =
     (case content r of
        [c] \<Rightarrow> type c = ''text'' \<and> text' c \<noteq> None
      | _ \<Rightarrow> False)"

definition error_result :: "string \<Rightarrow> tool_result" where
  "error_result t = \<lparr>content = [\<lparr>type = ''text'', text' = Some t\<rparr>], isError = Some True\<rparr>"

text \<open>
  What a handler hands back: most return an object of the shape above; two of them
  return the bare string of \<open>formatError\<close> from their \<open>catch\<close> block.
\<close>

datatype handler_result = ToolResult tool_result | BareString string

fun is_well_formed :: "handler_result \<Rightarrow> bool" where
  "is_well_formed (ToolResult r) = well_formed r"
| "is_well_formed (BareString t) = False"

definition returning_object ::
    "(jsval + tool_result) \<times> 'w \<Rightarrow> (jsval + handler_result) \<times> 'w" where
  "returning_object x = (case x of (Inl e, w') \<Rightarrow> (Inl e, w') | (Inr r, w') \<Rightarrow> (Inr (ToolResult r), w'))"

text \<open>\<open>JSON.stringify(value, null, 2)\<close>.\<close>

definition hex_char :: "nat \<Rightarrow> char" where
  "hex_char n = ''0123456789abcdef'' ! n"

definition escape_char :: "char \<Rightarrow> string" where
  "escape_char c =
     (if c = CHR 0x22 then [CHR 0x5C, CHR 0x22]
      else if c = CHR 0x5C then [CHR 0x5C, CHR 0x5C]
      else if c = CHR 0x08 then [CHR 0x5C, CHR ''b'']
      else if c = CHR 0x0C then [CHR 0x5C, CHR ''f'']
      else if c = CHR 0x0A then [CHR 0x5C, CHR ''n'']
      else if c = CHR 0x0D then [CHR 0x5C, CHR ''r'']
      else if c = CHR 0x09 then [CHR 0x5C, CHR ''t'']
      else if (of_char c :: nat) < 32 then
        [CHR 0x5C, CHR ''u'', CHR ''0'', CHR ''0'',
         hex_char ((of_char c :: nat) div 16), hex_char ((of_char c :: nat) mod 16)]
      else [c])"

definition quote :: "string \<Rightarrow> string" where
  "quote s = [CHR 0x22] @ concat (map escape_char s) @ [CHR 0x22]"

text \<open>
  The order in which the properties of an object are visited: keys that are array
  indices first, in ascending order, then the other keys in insertion order.
\<close>

definition is_array_index :: "string \<Rightarrow> bool" where
  "is_array_index k = (k = show_nat (digits_value k) \<and> digits_value k < 4294967295)"

definition property_order :: "(string \<times> 'a) list \<Rightarrow> (string \<times> 'a) list" where
  "property_order fs =
     sort_key (\<lambda>(k, v). digits_value k) (filter (\<lambda>(k, v). is_array_index k) fs)
     @ filter (\<lambda>(k, v). \<not> is_array_index k) fs"

function stringify :: "string \<Rightarrow> json \<Rightarrow> string" where
  "stringify ind Null = ''null''"
| "stringify ind (Bool b) = (if b then ''true'' else ''false'')"
| "stringify ind (Num n) = show_int n"
| "stringify ind (Str s) = quote s"
| "stringify ind (Arr xs) =
     (if xs = [] then ''[]''
      else ''['' @ [CHR 0x0A] @ ind @ ''  ''
           @ join ('','' @ [CHR 0x0A] @ ind @ ''  '') (map (stringify (ind @ ''  '')) xs)
           @ [CHR 0x0A] @ ind @ '']'')"
| "stringify ind (Obj fs) =
     (if fs = [] then ''{}''
      else ''{'' @ [CHR 0x0A] @ ind @ ''  ''
           @ join ('','' @ [CHR 0x0A] @ ind @ ''  '')
               (map (\<lambda>(k, v). quote k @ '': '' @ stringify (ind @ ''  '') v) (property_order fs))
           @ [CHR 0x0A] @ ind @ ''}'')"
  by pat_completeness auto
termination
proof (relation "measure (\<lambda>(ind, j). size j)", goal_cases)
  case 1
  show ?case by simp
next
  case (2 ind xs x)
  then show ?case by (simp add: size_list_estimation' less_Suc_eq_le)
next
  case (3 ind fs x k v)
  then have "(k, v) \<in> set fs"
    by (auto simp add: property_order_def)
  then have "size v \<le> size_list (size_prod (\<lambda>_. 0) size) fs"
    by (induction fs) auto
  then show ?case by simp
qed

definition JSON_stringify :: "json option \<Rightarrow> string option" where
  "JSON_stringify value = map_option (stringify []) value"

text \<open>An object literal: a property whose value is \<open>undefined\<close> is left out of the text.\<close>

definition object_literal :: "(string \<times> json option) list \<Rightarrow> json" where
  "object_literal fs = Obj (concat (map (\<lambda>(k, v). case v of None \<Rightarrow> [] | Some j \<Rightarrow> [(k, j)]) fs))"

section \<open>The dispatcher (index.ts)\<close>

text \<open>
  A registry entry.  The schema's \<open>parse\<close> returns the validated value or throws; the
  handler returns something or throws, and may talk to the world.  The arguments of a
  call are an object or absent, as the protocol types them.
\<close>

record tool =
  schema :: "(string \<times> json) list \<Rightarrow> jsval + json"
  handler :: "json \<Rightarrow> world \<Rightarrow> (jsval + handler_result) \<times> world"

type_synonym registry = "(string \<times> tool) list"

text \<open>
  The error \<open>parse\<close> throws on invalid input (zod): its issues carry a path of keys
  and indices and a message.
\<close>

datatype path_elem = PKey string | PIndex nat

record zod_issue =
  code :: string
  path :: "path_elem list"
  message :: string

fun path_elem_js :: "path_elem \<Rightarrow> jsval" where
  "path_elem_js (PKey k) = JStr k"
| "path_elem_js (PIndex i) = JNum (int i)"

definition issue_js :: "zod_issue \<Rightarrow> jsval" where
  "issue_js i =
     JObj [(''code'', JStr (code i)),
           (''path'', JArr (map path_elem_js (path i))),
           (''message'', JStr (message i))]"

definition ZodError :: "string \<Rightarrow> zod_issue list \<Rightarrow> jsval" where
  "ZodError m issues = JError ZodErrorC m [(''issues'', JArr (map issue_js issues))]"

text \<open>
  \<open>toolRegistry[name]\<close> on an object literal: an own key gives its entry; a name that
  \<open>Object.prototype\<close> defines gives the inherited member, which is truthy and has no
  \<open>schema\<close>; any other name gives \<open>undefined\<close>.
\<close>

definition object_prototype_keys :: "string list" where
  "object_prototype_keys =
     [''constructor'', ''__defineGetter__'', ''__defineSetter__'', ''hasOwnProperty'',
      ''__lookupGetter__'', ''__lookupSetter__'', ''isPrototypeOf'', ''propertyIsEnumerable'',
      ''toString'', ''valueOf'', ''__proto__'', ''toLocaleString'']"

datatype 'a member = Absent | Inherited | Own 'a

definition registry_lookup :: "registry \<Rightarrow> string \<Rightarrow> tool member" where
  "registry_lookup reg name =
     (case map_of reg name of
        Some t \<Rightarrow> Own t
      | None \<Rightarrow> if name \<in> set object_prototype_keys then Inherited else Absent)"

fun typeof_object :: "jsval \<Rightarrow> bool" where
  "typeof_object JNull = True"
| "typeof_object (JArr xs) = True"
| "typeof_object (JObj fs) = True"
| "typeof_object (JError c m ps) = True"
| "typeof_object _ = False"

text \<open>\<open>'errors' in error\<close> for an object.\<close>

fun has_errors :: "jsval \<Rightarrow> bool" where
  "has_errors (JObj fs) = (''errors'' \<in> fst ` set fs)"
| "has_errors (JError c m ps) = (''errors'' \<in> fst ` set ps \<or> c = ZodErrorC)"
| "has_errors _ = False"

text \<open>The callback \<open>e => `${e.path.join('.')}: ${e.message}`\<close>.\<close>

definition issue_line :: "jsval \<Rightarrow> jsval + string" where
  "issue_line e =
     (if nullish e then Inl (cannot_read e ''path'')
      else case get_prop e ''path'' of
             JArr ps \<Rightarrow>
               Inr (join ''.'' (map (\<lambda>x. if nullish x then [] else to_string x) ps)
                    @ '': '' @ to_string (get_prop e ''message''))
           | JUndefined \<Rightarrow> Inl (cannot_read JUndefined ''join'')
           | JNull \<Rightarrow> Inl (cannot_read JNull ''join'')
           | _ \<Rightarrow> Inl (TypeError ''e.path.join is not a function''))"

text \<open>\<open>Array.prototype.map\<close> with a callback that may throw: the first throw ends it.\<close>

fun map_throwing :: "('a \<Rightarrow> jsval + 'b) \<Rightarrow> 'a list \<Rightarrow> jsval + 'b list" where
  "map_throwing f [] = Inr []"
| "map_throwing f (x # xs) =
     (case f x of
        Inl e \<Rightarrow> Inl e
      | Inr y \<Rightarrow> (case map_throwing f xs of Inl e \<Rightarrow> Inl e | Inr ys \<Rightarrow> Inr (y # ys)))"

text \<open>The \<open>catch\<close> block of the call handler; \<open>Inl\<close> is an exception that leaves it.\<close>

definition dispatch_catch :: "jsval \<Rightarrow> jsval + tool_result" where
  "dispatch_catch error =
     (if truthy error \<and> typeof_object error \<and> has_errors error then
        (case get_prop error ''errors'' of
           JArr es \<Rightarrow>
             (case map_throwing issue_line es of
                Inl e \<Rightarrow> Inl e
              | Inr errorMessages \<Rightarrow>
                  Inr (error_result (''Validation Error: '' @ join '', '' errorMessages)))
         | JUndefined \<Rightarrow> Inl (cannot_read JUndefined ''map'')
         | JNull \<Rightarrow> Inl (cannot_read JNull ''map'')
         | _ \<Rightarrow> Inl (TypeError ''zodError.errors.map is not a function''))
      else
        Inr (error_result
               (''Error: '' @ (if instanceof_Error error then to_string (get_prop error ''message'')
                               else to_string error))))"

text \<open>
  The handler of \<open>CallToolRequestSchema\<close>.  \<open>Inl\<close> is an exception that reaches the
  caller.  What the tool's handler returns is handed back as it is.  The logger only
  writes to the error stream and is left out.
\<close>

definition caught :: "jsval \<Rightarrow> jsval + handler_result" where
  "caught error = (case dispatch_catch error of Inl e \<Rightarrow> Inl e | Inr r \<Rightarrow> Inr (ToolResult r))"

definition dispatch ::
    "registry \<Rightarrow> string \<Rightarrow> (string \<times> json) list option \<Rightarrow> world \<Rightarrow> (jsval + handler_result) \<times> world" where
  "dispatch reg name args w =
     (case registry_lookup reg name of
        Absent \<Rightarrow>
          (Inr (ToolResult (error_result (''Error: Unknown tool '' @ [CHR 0x27] @ name @ [CHR 0x27]))), w)
      | Inherited \<Rightarrow> (caught (cannot_read JUndefined ''parse''), w)
      | Own tool \<Rightarrow>
          (case schema tool (case args of None \<Rightarrow> [] | Some a \<Rightarrow> a) of
             Inl error \<Rightarrow> (caught error, w)
           | Inr validatedArgs \<Rightarrow>
               (case handler tool validatedArgs w of
                  (Inl error, w') \<Rightarrow> (caught error, w')
                | (Inr result, w') \<Rightarrow> (Inr result, w'))))"

text \<open>
  The server answers the calls it receives one after the other, each from the world the
  previous one left.
\<close>

fun serve ::
    "registry \<Rightarrow> (string \<times> (string \<times> json) list option) list \<Rightarrow> world \<Rightarrow>
     (jsval + handler_result) list \<times> world" where
  "serve reg [] w = ([], w)"
| "serve reg ((name, args) # calls) w =
     (case dispatch reg name args w of
        (r, w') \<Rightarrow> (case serve reg calls w' of (rs, w'') \<Rightarrow> (r # rs, w'')))"

section \<open>The frame of a handler\<close>



section \<open>The member-info tool (api/common.ts, tools/common/get-my-member-info.ts)\<close>

definition COMMON_BASE :: string where
  "COMMON_BASE = ''/common/v1''"

definition getMyMemberInfo :: "DoorayConfig \<Rightarrow> world \<Rightarrow> (jsval + json option) \<times> world" where
  "getMyMemberInfo config w = client_get config (COMMON_BASE @ ''/members/me'') None [] w"

text \<open>\<open>z.object({})\<close> accepts every object and strips its keys.\<close>

definition getMyMemberInfoSchema :: "(string \<times> json) list \<Rightarrow> jsval + json" where
  "getMyMemberInfoSchema fs = Inr (Obj [])"

definition getMyMemberInfoHandler ::
    "DoorayConfig \<Rightarrow> json \<Rightarrow> world \<Rightarrow> (jsval + tool_result) \<times> world" where
  "getMyMemberInfoHandler config args w =
     (case getMyMemberInfo config w of
        (Inr result, w') \<Rightarrow>
          (Inr \<lparr>content = [\<lparr>type = ''text'', text' = JSON_stringify result\<rparr>], isError = None\<rparr>, w')
      | (Inl error, w') \<Rightarrow> (Inr (error_result (''Error: '' @ formatError error)), w'))"

definition getMyMemberInfoEntry :: "DoorayConfig \<Rightarrow> tool" where
  "getMyMemberInfoEntry config =
     \<lparr>schema = getMyMemberInfoSchema,
      handler = (\<lambda>args w. returning_object (getMyMemberInfoHandler config args w))\<rparr>"

section \<open>The project tool (api/projects.ts, tools/projects/get-project.ts)\<close>

definition PROJECTS_BASE :: string where
  "PROJECTS_BASE = ''/project/v1''"

definition getProjectDetails :: "DoorayConfig \<Rightarrow> string \<Rightarrow> world \<Rightarrow> (jsval + json option) \<times> world" where
  "getProjectDetails config pid w =
     client_get config (PROJECTS_BASE @ ''/projects/'' @ pid) None [] w"

text \<open>
  \<open>z.object({ projectId: z.string() })\<close>: the key must hold a string; other keys are
  stripped.  The message of the error thrown is the JSON text of its issues; the fields
  \<open>expected\<close> and \<open>received\<close> of an issue appear there and are not read by the program.
\<close>

fun zod_type :: "json \<Rightarrow> string" where
  "zod_type Null = ''null''"
| "zod_type (Bool b) = ''boolean''"
| "zod_type (Num n) = ''number''"
| "zod_type (Str s) = ''string''"
| "zod_type (Arr xs) = ''array''"
| "zod_type (Obj fs) = ''object''"

definition invalid_type :: "string \<Rightarrow> string \<Rightarrow> string \<Rightarrow> string \<Rightarrow> jsval" where
  "invalid_type k expected received m =
     ZodError
       (stringify []
          (Arr [Obj [(''code'', Str ''invalid_type''), (''expected'', Str expected),
                     (''received'', Str received), (''path'', Arr [Str k]), (''message'', Str m)]]))
       [\<lparr>code = ''invalid_type'', path = [PKey k], message = m\<rparr>]"

definition getProjectSchema :: "(string \<times> json) list \<Rightarrow> jsval + json" where
  "getProjectSchema fs =
     (case map_of fs ''projectId'' of
        None \<Rightarrow> Inl (invalid_type ''projectId'' ''string'' ''undefined'' ''Required'')
      | Some (Str s) \<Rightarrow> Inr (Obj [(''projectId'', Str s)])
      | Some v \<Rightarrow>
          Inl (invalid_type ''projectId'' ''string'' (zod_type v)
                 (''Expected string, received '' @ zod_type v)))"

definition getProjectHandler ::
    "DoorayConfig \<Rightarrow> json \<Rightarrow> world \<Rightarrow> (jsval + tool_result) \<times> world" where
  "getProjectHandler config args w =
     (case getProjectDetails config (to_string (of_json_opt (json_get args ''projectId''))) w of
        (Inr result, w') \<Rightarrow>
          (Inr \<lparr>content = [\<lparr>type = ''text'', text' = JSON_stringify result\<rparr>], isError = None\<rparr>, w')
      | (Inl error, w') \<Rightarrow> (Inr (error_result (''Error: '' @ formatError error)), w'))"

definition getProjectEntry :: "DoorayConfig \<Rightarrow> tool" where
  "getProjectEntry config =
     \<lparr>schema = getProjectSchema,
      handler = (\<lambda>args w. returning_object (getProjectHandler config args w))\<rparr>"

section \<open>The comment update tool (api/projects.ts, tools/projects/update-task-comment.ts)\<close>

text \<open>
  The schemas of zod that the tool uses, and \<open>parse\<close> on them.  Every issue found is
  collected, in the order of the keys of the schema; an object keeps the keys of its
  schema that the input holds and drops the others.  The first component of an issue
  is the object zod prints in the message of its error.
\<close>

datatype zschema =
    ZString
  | ZEnum "string list"
  | ZArray zschema
  | ZObject "(string \<times> zschema) list"
  | ZOptional zschema

fun path_elem_json :: "path_elem \<Rightarrow> json" where
  "path_elem_json (PKey k) = Str k"
| "path_elem_json (PIndex i) = Num (int i)"

definition mk_issue ::
    "string \<Rightarrow> (string \<times> json) list \<Rightarrow> path_elem list \<Rightarrow> string \<Rightarrow> json \<times> zod_issue" where
  "mk_issue c details p m =
     (Obj (details @ [(''path'', Arr (map path_elem_json p)), (''message'', Str m)]),
      \<lparr>code = c, path = p, message = m\<rparr>)"

definition received_type :: "json option \<Rightarrow> string" where
  "received_type v = (case v of None \<Rightarrow> ''undefined'' | Some j \<Rightarrow> zod_type j)"

definition type_message :: "string \<Rightarrow> json option \<Rightarrow> string" where
  "type_message expected v =
     (case v of
        None \<Rightarrow> ''Required''
      | Some j \<Rightarrow> ''Expected '' @ expected @ '', received '' @ zod_type j)"

text \<open>\<open>util.joinValues\<close>: the values in single quotes, separated by a bar.\<close>

definition joinValues :: "string list \<Rightarrow> string" where
  "joinValues vs = join '' | '' (map (\<lambda>v. [CHR 0x27] @ v @ [CHR 0x27]) vs)"

fun zparse :: "zschema \<Rightarrow> path_elem list \<Rightarrow> json option \<Rightarrow> (json \<times> zod_issue) list \<times> json option" where
  "zparse ZString p v =
     (case v of
        Some (Str s) \<Rightarrow> ([], Some (Str s))
      | _ \<Rightarrow>
          ([mk_issue ''invalid_type''
              [(''code'', Str ''invalid_type''), (''expected'', Str ''string''),
               (''received'', Str (received_type v))]
              p (type_message ''string'' v)], None))"
| "zparse (ZEnum vs) p v =
     (case v of
        Some (Str s) \<Rightarrow>
          if s \<in> set vs then ([], Some (Str s))
          else ([mk_issue ''invalid_enum_value''
                   [(''received'', Str s), (''code'', Str ''invalid_enum_value''),
                    (''options'', Arr (map Str vs))]
                   p (''Invalid enum value. Expected '' @ joinValues vs @ '', received ''
                      @ [CHR 0x27] @ s @ [CHR 0x27])], None)
      | _ \<Rightarrow>
          ([mk_issue ''invalid_type''
              [(''expected'', Str (joinValues vs)), (''received'', Str (received_type v)),
               (''code'', Str ''invalid_type'')]
              p (type_message (joinValues vs) v)], None))"
| "zparse (ZArray e) p v =
     (case v of
        Some (Arr xs) \<Rightarrow>
          (let rs = map (\<lambda>(i, x). zparse e (p @ [PIndex i]) (Some x)) (zip [0..<length xs] xs)
           in (concat (map fst rs),
               Some (Arr (concat (map (\<lambda>r. case snd r of None \<Rightarrow> [] | Some j \<Rightarrow> [j]) rs)))))
      | _ \<Rightarrow>
          ([mk_issue ''invalid_type''
              [(''code'', Str ''invalid_type''), (''expected'', Str ''array''),
               (''received'', Str (received_type v))]
              p (type_message ''array'' v)], None))"
| "zparse (ZObject shape) p v =
     (case v of
        Some (Obj fs) \<Rightarrow>
          (let rs = map (\<lambda>(k, sch). (k, zparse sch (p @ [PKey k]) (map_of fs k))) shape
           in (concat (map (\<lambda>(k, r). fst r) rs),
               Some (Obj (concat (map (\<lambda>(k, r). case snd r of None \<Rightarrow> [] | Some j \<Rightarrow> [(k, j)]) rs)))))
      | _ \<Rightarrow>
          ([mk_issue ''invalid_type''
              [(''code'', Str ''invalid_type''), (''expected'', Str ''object''),
               (''received'', Str (received_type v))]
              p (type_message ''object'' v)], None))"
| "zparse (ZOptional sch) p v = (case v of None \<Rightarrow> ([], None) | Some j \<Rightarrow> zparse sch p (Some j))"

definition zod_parse :: "zschema \<Rightarrow> (string \<times> json) list \<Rightarrow> jsval + json" where
  "zod_parse sch fs =
     (case zparse sch [] (Some (Obj fs)) of
        ([], Some j) \<Rightarrow> Inr j
      | ([], None) \<Rightarrow> Inr (Obj [])
      | (i # is, r) \<Rightarrow>
          Inl (ZodError (stringify [] (Arr (map fst (i # is)))) (map snd (i # is))))"

definition updateTaskCommentSchema :: "(string \<times> json) list \<Rightarrow> jsval + json" where
  "updateTaskCommentSchema =
     zod_parse (ZObject
       [(''projectId'', ZString),
        (''taskId'', ZString),
        (''commentId'', ZString),
        (''body'', ZOptional (ZObject
           [(''content'', ZString),
            (''mimeType'', ZEnum [''text/x-markdown'', ''text/html''])])),
        (''attachFileIds'', ZOptional (ZArray ZString))])"

text \<open>
  \<open>params.attachFileIds.length > 0\<close>.  The schema admits an array of strings or nothing
  here; numbers and booleans have no \<open>length\<close>.  An object with a \<open>length\<close> of its own,
  which the schema rejects, is not covered.
\<close>

fun length_positive :: "json option \<Rightarrow> bool" where
  "length_positive (Some (Arr xs)) = (xs \<noteq> [])"
| "length_positive (Some (Str s)) = (s \<noteq> [])"
| "length_positive _ = False"

definition updateTaskComment :: "DoorayConfig \<Rightarrow> json \<Rightarrow> world \<Rightarrow> (jsval + json option) \<times> world" where
  "updateTaskComment config params' w =
     (let body' = json_get params' ''body'';
          attachFileIds = json_get params' ''attachFileIds'';
          requestBody =
            Obj ((if truthy_j body'
                  then [(''body'', object_literal [(''content'', opt_chain body' ''content''),
                                                   (''mimeType'', opt_chain body' ''mimeType'')])]
                  else [])
                 @ (case attachFileIds of
                      Some a \<Rightarrow> if truthy_j attachFileIds \<and> length_positive attachFileIds
                                then [(''attachFileIds'', a)] else []
                    | None \<Rightarrow> []))
      in client_put config
           (PROJECTS_BASE @ ''/projects/'' @ to_string (of_json_opt (json_get params' ''projectId''))
            @ ''/posts/'' @ to_string (of_json_opt (json_get params' ''taskId''))
            @ ''/logs/'' @ to_string (of_json_opt (json_get params' ''commentId'')))
           (JsonBody requestBody) [] w)"

text \<open>
  The handler hands the five arguments on, and in its \<open>catch\<close> returns the string of
  \<open>formatError\<close> itself, not an object.
\<close>

definition updateTaskCommentHandler ::
    "DoorayConfig \<Rightarrow> json \<Rightarrow> world \<Rightarrow> (jsval + handler_result) \<times> world" where
  "updateTaskCommentHandler config args w =
     (case updateTaskComment config
             (object_literal [(''projectId'', json_get args ''projectId''),
                              (''taskId'', json_get args ''taskId''),
                              (''commentId'', json_get args ''commentId''),
                              (''body'', json_get args ''body''),
                              (''attachFileIds'', json_get args ''attachFileIds'')]) w of
        (Inr result, w') \<Rightarrow>
          (Inr (ToolResult
                  \<lparr>content = [\<lparr>type = ''text'',
                                text' = Some (''Successfully updated comment ''
                                              @ to_string (of_json_opt (json_get args ''commentId'')))\<rparr>],
                   isError = None\<rparr>), w')
      | (Inl error, w') \<Rightarrow> (Inr (BareString (formatError error)), w'))"

definition updateTaskCommentEntry :: "DoorayConfig \<Rightarrow> tool" where
  "updateTaskCommentEntry config =
     \<lparr>schema = updateTaskCommentSchema, handler = updateTaskCommentHandler config\<rparr>"

section \<open>The attachment upload that shells out (tools/projects/upload-attachment.ts)\<close>

record UploadAttachmentInput =
  projectId :: string
  taskId :: string
  filePath :: string

definition trim :: "string \<Rightarrow> string" where
  "trim s = rev (dropWhile is_space (rev (dropWhile is_space s)))"

text \<open>\<open>s.split(c)\<close> for a one-character separator.\<close>

fun split_on :: "char \<Rightarrow> string \<Rightarrow> string list" where
  "split_on c [] = [[]]"
| "split_on c (x # xs) =
     (if x = c then [] # split_on c xs
      else case split_on c xs of
             y # ys \<Rightarrow> (x # y) # ys
           | [] \<Rightarrow> [[x]])"

text \<open>\<open>xs[i]\<close>: outside the array the read gives \<open>undefined\<close>.\<close>

definition at_index :: "'a list \<Rightarrow> int \<Rightarrow> 'a option" where
  "at_index xs i = (if 0 \<le> i \<and> i < int (length xs) then Some (xs ! nat i) else None)"

definition basename :: "string \<Rightarrow> string" where
  "basename p = rev (takeWhile (\<lambda>c. c \<noteq> CHR ''/'') (dropWhile (\<lambda>c. c = CHR ''/'') (rev p)))"

text \<open>
  One run of \<open>curl -s -X POST url --header 'Authorization: ...' --form 'file=@"path"'\<close>:
  a multipart POST of the file, redirects not followed.  The command line goes through
  the shell; this describes it for strings that hold no quote, backslash or line
  break (\<open>shell_plain\<close>), which the shell and curl take as they are.
\<close>

definition shell_plain :: "string \<Rightarrow> bool" where
  "shell_plain s = (set s \<inter> set [CHR 0x27, CHR 0x22, CHR 0x5C, CHR 0x0A, CHR 0x0D] = {})"

definition curl_post_file :: "string \<Rightarrow> string \<Rightarrow> string \<Rightarrow> world \<Rightarrow> net_outcome \<times> world" where
  "curl_post_file u token p w =
     (let req = \<lparr>http_method = POST, baseURL = None, url = u, params = None,
                 body = FormBody [(''file'', basename p, case files w p of Some c \<Rightarrow> c | None \<Rightarrow> [])],
                 req_headers = [(''Authorization'', ''dooray-api '' @ token)],
                 timeout = None, maxRedirects = Some 0, responseType = None\<rparr>
      in (service w (sent w) req,
          w\<lparr>sent := sent w @ (if went_out (service w (sent w) req) then [req] else [])\<rparr>))"

text \<open>
  What \<open>-w '\n%{http_code}\n%{redirect_url}' -o /dev/null\<close> prints: the body is
  discarded, the status is printed with three digits, and the redirect URL is the
  location of a 3xx response, made absolute against the URL of the request, and empty
  otherwise.
\<close>

definition http_code :: "nat \<Rightarrow> string" where
  "http_code s = (if s < 10 then ''00'' else if s < 100 then ''0'' else []) @ show_nat s"

definition redirect_url :: "world \<Rightarrow> string \<Rightarrow> http_response \<Rightarrow> string" where
  "redirect_url w u r =
     (if 300 \<le> status r \<and> status r < 400
      then (case map_of (headers r) ''location'' of
              Some l \<Rightarrow> if l = [] then [] else if has_scheme l then l else resolve w u l
            | None \<Rightarrow> [])
      else [])"

definition write_out :: "world \<Rightarrow> string \<Rightarrow> http_response \<Rightarrow> string" where
  "write_out w u r = [CHR 0x0A] @ http_code (status r) @ [CHR 0x0A] @ redirect_url w u r"

text \<open>
  \<open>exec\<close> rejects when curl exits with a failure, which it does when it gets no
  response; the message holds the command and curl's diagnostics, for which the message
  of the outcome stands (with \<open>-s\<close> curl prints none for a URL it rejects).
\<close>

fun diagnostics :: "net_outcome \<Rightarrow> string" where
  "diagnostics (NetworkError m) = m"
| "diagnostics (Unsent m) = m"
| "diagnostics InvalidURL = []"
| "diagnostics (Response r) = []"

definition exec_failure :: "net_outcome \<Rightarrow> jsval" where
  "exec_failure out = JError ErrorC (''Command failed: '' @ diagnostics out) []"

text \<open>
  The common end of both branches, from \<open>JSON.parse(stdout)\<close> on; the body of the
  response is a JSON document and \<open>data\<close> is its parse.
\<close>

definition upload_finish :: "string \<Rightarrow> json \<Rightarrow> jsval + tool_result" where
  "upload_finish fileName response =
     (if response = Null then Inl (cannot_read JNull ''header'')
      else if \<not> truthy_j (opt_chain (json_get response ''header'') ''isSuccessful'') then
        Inl (JError ErrorC
               (to_string (of_json_opt
                  (js_or (opt_chain (json_get response ''header'') ''resultMessage'')
                     (Some (Str ''Upload failed''))))) [])
      else
        case json_get response ''result'' of
          None \<Rightarrow> Inl (cannot_read JUndefined ''id'')
        | Some Null \<Rightarrow> Inl (cannot_read JNull ''id'')
        | Some result \<Rightarrow>
            Inr \<lparr>content =
                   [\<lparr>type = ''text'',
                     text' = JSON_stringify (Some (object_literal
                       [(''success'', Some (Bool True)),
                        (''fileId'', json_get result ''id''),
                        (''fileName'', Some (Str fileName)),
                        (''message'', Some (Str (''File '' @ [CHR 0x22] @ fileName @ [CHR 0x22]
                                                  @ '' successfully uploaded to task.'')))]))\<rparr>],
                 isError = None\<rparr>)"

text \<open>The body of the \<open>try\<close>; \<open>Inl\<close> is what it throws.\<close>

definition uploadAttachment_try ::
    "UploadAttachmentInput \<Rightarrow> world \<Rightarrow> (jsval + tool_result) \<times> world" where
  "uploadAttachment_try args w =
     (case env w ''DOORAY_API_TOKEN'' of
        None \<Rightarrow> (Inl (JError ErrorC ''DOORAY_API_TOKEN environment variable is required'' []), w)
      | Some apiToken' \<Rightarrow>
          if apiToken' = [] then
            (Inl (JError ErrorC ''DOORAY_API_TOKEN environment variable is required'' []), w)
          else if files w (filePath args) = None then
            (Inl (JError ErrorC (''File not found: '' @ filePath args) []), w)
          else
            (let fileName = basename (filePath args);
                 baseUrl' = (case env w ''DOORAY_API_BASE_URL'' of
                              None \<Rightarrow> ''https://api.dooray.com''
                            | Some b \<Rightarrow> if b = [] then ''https://api.dooray.com'' else b);
                 apiUrl = baseUrl' @ ''/project/v1/projects/'' @ projectId args @ ''/posts/''
                          @ taskId args @ ''/files''
             in (case curl_post_file apiUrl apiToken' (filePath args) w of
                   (Response r1, w1) \<Rightarrow>
                     (let step1Lines = split_on (CHR 0x0A) (trim (write_out w apiUrl r1));
                          httpCode = at_index step1Lines (int (length step1Lines) - 2);
                          redirectUrl = at_index step1Lines (int (length step1Lines) - 1)
                      in if httpCode = Some ''307'' \<and> redirectUrl \<noteq> None \<and> redirectUrl \<noteq> Some [] then
                           (case curl_post_file (case redirectUrl of Some l \<Rightarrow> l | None \<Rightarrow> [])
                                   apiToken' (filePath args) w1 of
                              (Response r2, w2) \<Rightarrow> (upload_finish fileName (data r2), w2)
                            | (out, w2) \<Rightarrow> (Inl (exec_failure out), w2))
                         else if httpCode = Some ''200'' \<or> httpCode = Some ''201'' then
                           (case curl_post_file apiUrl apiToken' (filePath args) w1 of
                              (Response r2, w2) \<Rightarrow> (upload_finish fileName (data r2), w2)
                            | (out, w2) \<Rightarrow> (Inl (exec_failure out), w2))
                         else
                           (Inl (JError ErrorC
                                   (''Unexpected HTTP status: ''
                                    @ (case httpCode of None \<Rightarrow> ''undefined'' | Some c \<Rightarrow> c)) []),
                            w1))
                 | (out, w1) \<Rightarrow> (Inl (exec_failure out), w1))))"

definition uploadAttachmentHandler ::
    "UploadAttachmentInput \<Rightarrow> world \<Rightarrow> (jsval + tool_result) \<times> world" where
  "uploadAttachmentHandler args w =
     (case uploadAttachment_try args w of
        (Inl error, w') \<Rightarrow> (Inr (error_result (''Error: '' @ formatError error)), w')
      | (Inr result, w') \<Rightarrow> (Inr result, w'))"

section \<open>Worlds and registries used as examples\<close>

definition example_config :: DoorayConfig where
  "example_config = \<lparr>apiToken = ''secret'', baseUrl = None\<rparr>"

text \<open>
  Scheme and authority of an absolute URL: what a reference that begins with one slash is
  resolved against.
\<close>

definition origin :: "string \<Rightarrow> string" where
  "origin u =
     (let scheme = takeWhile (\<lambda>c. c \<noteq> CHR '':'') u;
          rest = drop (length scheme + 3) u
      in scheme @ ''://'' @ takeWhile (\<lambda>c. c \<noteq> CHR ''/'') rest)"

text \<open>Worlds without redirects behind the calls that follow them.\<close>

definition world_of :: "(request list \<Rightarrow> request \<Rightarrow> net_outcome) \<Rightarrow> world" where
  "world_of f =
     \<lparr>service = f, hops = (\<lambda>seen req. []), resolve = (\<lambda>base ref. origin base @ ref), sent = [],
      env = [''DOORAY_API_TOKEN'' \<mapsto> ''secret''],
      files = [''/tmp/report.pdf'' \<mapsto> ''%PDF'']\<rparr>"

text \<open>A service that gives the same answer to every request.\<close>

definition answering :: "nat \<Rightarrow> json \<Rightarrow> (string \<times> string) list \<Rightarrow> world" where
  "answering s d hs = world_of (\<lambda>seen req. Response \<lparr>status = s, data = d, headers = hs\<rparr>)"




definition success_envelope :: "json \<Rightarrow> json" where
  "success_envelope p =
     Obj [(''header'', Obj [(''isSuccessful'', Bool True), (''resultCode'', Num 0),
                            (''resultMessage'', Str [])]),
          (''result'', p)]"

definition example_registry :: registry where
  "example_registry =
     [(''get-my-member-info'', getMyMemberInfoEntry example_config),
      (''get-project'', getProjectEntry example_config),
      (''update-task-comment'', updateTaskCommentEntry example_config)]"

text \<open>The member of the scenario, its text with two spaces of indentation, and its compact text.\<close>

definition alice :: json where
  "alice = Obj [(''id'', Str ''42''), (''name'', Str ''Alice'')]"

definition alice_text :: string where
  "alice_text =
     ''{'' @ [CHR 0x0A]
     @ ''  '' @ [CHR 0x22] @ ''id'' @ [CHR 0x22] @ '': '' @ [CHR 0x22] @ ''42'' @ [CHR 0x22] @ '','' @ [CHR 0x0A]
     @ ''  '' @ [CHR 0x22] @ ''name'' @ [CHR 0x22] @ '': '' @ [CHR 0x22] @ ''Alice'' @ [CHR 0x22] @ [CHR 0x0A]
     @ ''}''"

definition alice_compact :: string where
  "alice_compact =
     ''{'' @ [CHR 0x22] @ ''id'' @ [CHR 0x22] @ '':'' @ [CHR 0x22] @ ''42'' @ [CHR 0x22] @ '',''
     @ [CHR 0x22] @ ''name'' @ [CHR 0x22] @ '':'' @ [CHR 0x22] @ ''Alice'' @ [CHR 0x22] @ ''}''"

text \<open>The line the dispatcher prints for one issue: its path joined by dots, then its message.\<close>

fun path_elem_text :: "path_elem \<Rightarrow> string" where
  "path_elem_text (PKey k) = k"
| "path_elem_text (PIndex i) = show_nat i"

definition issue_text :: "zod_issue \<Rightarrow> string" where
  "issue_text i = join ''.'' (map path_elem_text (path i)) @ '': '' @ message i"

text \<open>The two initial requests, named for the statements below.\<close>

definition upload_initial ::
    "DoorayConfig \<Rightarrow> string \<Rightarrow> form_data \<Rightarrow> (string \<times> string) list \<Rightarrow> request" where
  "upload_initial config u formData hs =
     \<lparr>http_method = POST, baseURL = None, url = full_url config u, params = None,
      body = FormBody formData,
      req_headers = spread [(''Authorization'', ''dooray-api '' @ apiToken config)] hs,
      timeout = Some 60000, maxRedirects = Some 0, responseType = None\<rparr>"

definition download_initial ::
    "DoorayConfig \<Rightarrow> string \<Rightarrow> (string \<times> json) list option \<Rightarrow> request" where
  "download_initial config u ps =
     \<lparr>http_method = GET, baseURL = None, url = full_url config u, params = ps, body = NoBody,
      req_headers = [(''Authorization'', ''dooray-api '' @ apiToken config)],
      timeout = Some 60000, maxRedirects = Some 0, responseType = Some ''arraybuffer''\<rparr>"



section \<open>Properties of the envelope\<close>

lemma extractResult_success:
  assumes "json_get (data response) ''header'' = Some h" and "h \<noteq> Null"
    and "truthy_j (json_get h ''isSuccessful'')"
  shows "extractResult response = Inr (json_get (data response) ''result'')"
proof -
  from assms(1) have "data response \<noteq> Null"
    by (cases "data response") auto
  with assms show ?thesis
    by (cases h) (simp_all add: extractResult_def)
qed

lemma extractResult_failure:
  assumes "json_get (data response) ''header'' = Some h" and "h \<noteq> Null"
    and "\<not> truthy_j (json_get h ''isSuccessful'')"
    and "json_get h ''resultMessage'' = Some (Str m)" and "m \<noteq> []"
  shows "extractResult response =
           Inl (DoorayAPIError m (JNum (int (status response))) (of_json (data response)))"
proof -
  from assms(1) have "data response \<noteq> Null"
    by (cases "data response") auto
  moreover from assms(5) have "truthy_j (Some (Str m))"
    by (simp add: truthy_j_def of_json_opt_def)
  ultimately show ?thesis using assms
    by (cases h) (simp_all add: extractResult_def of_json_opt_def)
qed

text \<open>
  C4.  For every response body whose header reports success, \<open>extractResult\<close> returns the
  body's \<open>result\<close>; for every body whose header reports failure with a non-empty message,
  it throws a \<open>DoorayAPIError\<close> whose message is that message (with the response's status
  and body attached).  The outcome is a function of the response alone: no state is read
  or written.
\<close>

theorem extractResult_unwrap:
  assumes "json_get (data response) ''header'' = Some h" and "h \<noteq> Null"
    and "truthy_j (json_get h ''isSuccessful'') \<or>
         (json_get h ''resultMessage'' = Some (Str m) \<and> m \<noteq> [])"
  shows "extractResult response =
           (if truthy_j (json_get h ''isSuccessful'')
            then Inr (json_get (data response) ''result'')
            else Inl (DoorayAPIError m (JNum (int (status response))) (of_json (data response))))"
  using assms extractResult_success [of response h] extractResult_failure [of response h m]
  by auto

theorem extractResult_unwrap_witness:
  "extractResult \<lparr>status = 200,
       data = Obj [(''header'', Obj [(''isSuccessful'', Bool True), (''resultCode'', Num 0),
                                     (''resultMessage'', Str [])]),
                   (''result'', Obj [(''id'', Str ''f1'')])],
       headers = []\<rparr> = Inr (Some (Obj [(''id'', Str ''f1'')]))
   \<and> extractResult \<lparr>status = 200,
       data = Obj [(''header'', Obj [(''isSuccessful'', Bool False), (''resultCode'', Num (-1)),
                                     (''resultMessage'', Str ''no such project'')]),
                   (''result'', Null)],
       headers = []\<rparr>
     = Inl (DoorayAPIError ''no such project'' (JNum 200)
              (of_json (Obj [(''header'', Obj [(''isSuccessful'', Bool False), (''resultCode'', Num (-1)),
                                               (''resultMessage'', Str ''no such project'')]),
                             (''result'', Null)])))"
  using extractResult_unwrap [of "\<lparr>status = 200,
       data = Obj [(''header'', Obj [(''isSuccessful'', Bool True), (''resultCode'', Num 0),
                                     (''resultMessage'', Str [])]),
                   (''result'', Obj [(''id'', Str ''f1'')])],
       headers = []\<rparr>"
      "Obj [(''isSuccessful'', Bool True), (''resultCode'', Num 0), (''resultMessage'', Str [])]" "[]"]
    extractResult_unwrap [of "\<lparr>status = 200,
       data = Obj [(''header'', Obj [(''isSuccessful'', Bool False), (''resultCode'', Num (-1)),
                                     (''resultMessage'', Str ''no such project'')]),
                   (''result'', Null)],
       headers = []\<rparr>"
      "Obj [(''isSuccessful'', Bool False), (''resultCode'', Num (-1)),
            (''resultMessage'', Str ''no such project'')]" "''no such project''"]
  by (simp add: truthy_j_def of_json_opt_def)

section \<open>Properties of the HTTP layer\<close>

lemma remote_sent [simp]: "remote (w\<lparr>sent := s\<rparr>) seen req = remote w seen req"
  by (simp add: remote_def)

lemma issued_response:
  "remote w (sent w) req = Response r \<Longrightarrow> issued w req = req # followed w req"
  by (simp add: issued_def)

lemma issued_single:
  "remote w (sent w) req = Response r \<Longrightarrow> maxRedirects req = Some 0 \<Longrightarrow> issued w req = [req]"
  by (simp add: issued_def followed_def)



section \<open>Properties of the transfers\<close>



lemma uploadFile_direct:
  assumes "remote w (sent w) (upload_initial config u formData hs) = Response r1"
    and "200 \<le> status r1" and "status r1 < 300"
  shows "uploadFile config u formData hs w =
           (Inr (data r1), w\<lparr>sent := sent w @ [upload_initial config u formData hs]\<rparr>)"
  using assms issued_single [of w "upload_initial config u formData hs" r1]
  by (simp add: uploadFile_def upload_initial_def axios_request_def settle_def
      transfer_validateStatus_def Let_def)

lemma downloadFile_direct:
  assumes "remote w (sent w) (download_initial config u ps) = Response r1"
    and "200 \<le> status r1" and "status r1 < 300"
  shows "downloadFile config u ps w =
           (Inr (download_of r1), w\<lparr>sent := sent w @ [download_initial config u ps]\<rparr>)"
  using assms issued_single [of w "download_initial config u ps" r1]
  by (simp add: downloadFile_def download_initial_def axios_request_def settle_def
      transfer_validateStatus_def Let_def)

lemma uploadFile_rejected:
  assumes "remote w (sent w) (upload_initial config u formData hs) = Response r1"
    and "status r1 \<noteq> 307" and "\<not> (200 \<le> status r1 \<and> status r1 < 300)"
  shows "uploadFile config u formData hs w =
           (Inl (AxiosError (BadStatus r1)), w\<lparr>sent := sent w @ [upload_initial config u formData hs]\<rparr>)"
  using assms issued_single [of w "upload_initial config u formData hs" r1]
  by (simp add: uploadFile_def upload_initial_def axios_request_def settle_def
      transfer_validateStatus_def Let_def)

lemma downloadFile_rejected:
  assumes "remote w (sent w) (download_initial config u ps) = Response r1"
    and "status r1 \<noteq> 307" and "\<not> (200 \<le> status r1 \<and> status r1 < 300)"
  shows "downloadFile config u ps w =
           (Inl (AxiosError (BadStatus r1)), w\<lparr>sent := sent w @ [download_initial config u ps]\<rparr>)"
  using assms issued_single [of w "download_initial config u ps" r1]
  by (simp add: downloadFile_def download_initial_def axios_request_def settle_def
      transfer_validateStatus_def Let_def)

lemma uploadFile_no_location:
  assumes "remote w (sent w) (upload_initial config u formData hs) = Response r1"
    and "status r1 = 307"
    and "map_of (headers r1) ''location'' = None \<or> map_of (headers r1) ''location'' = Some []"
  shows "uploadFile config u formData hs w =
           (Inl no_location, w\<lparr>sent := sent w @ [upload_initial config u formData hs]\<rparr>)"
  using assms issued_single [of w "upload_initial config u formData hs" r1]
  by (auto simp add: uploadFile_def upload_initial_def axios_request_def settle_def
      transfer_validateStatus_def Let_def)

lemma downloadFile_no_location:
  assumes "remote w (sent w) (download_initial config u ps) = Response r1"
    and "status r1 = 307"
    and "map_of (headers r1) ''location'' = None \<or> map_of (headers r1) ''location'' = Some []"
  shows "downloadFile config u ps w =
           (Inl no_location, w\<lparr>sent := sent w @ [download_initial config u ps]\<rparr>)"
  using assms issued_single [of w "download_initial config u ps" r1]
  by (auto simp add: downloadFile_def download_initial_def axios_request_def settle_def
      transfer_validateStatus_def Let_def)

lemma has_scheme_examples:
  "has_scheme ''https://api.dooray.com/drive/v1/drives/d1/files/f0''"
  "has_scheme ''https://storage/x''"
  "\<not> has_scheme ''/storage/x''"
  "\<not> has_scheme ''/files/x''"
  by code_simp+

lemma full_url_example:
  "full_url example_config ''/drive/v1/drives/d1/files/f0''
     = ''https://api.dooray.com/drive/v1/drives/d1/files/f0''"
  by (simp add: full_url_def example_config_def base_url_def DEFAULT_BASE_URL_def)






lemma answering_fields:
  "sent (answering s d hs) = []"
  "hops (answering s d hs) = (\<lambda>seen req. [])"
  "service (answering s d hs) = (\<lambda>seen req. Response \<lparr>status = s, data = d, headers = hs\<rparr>)"
  by (simp_all add: answering_def world_of_def)

lemma remote_answering:
  "has_scheme (target req) \<Longrightarrow>
     remote (answering s d hs) seen req = Response \<lparr>status = s, data = d, headers = hs\<rparr>"
  by (simp add: remote_def answering_fields)

lemma target_initial:
  "target (upload_initial config u formData hs) = full_url config u"
  "target (download_initial config u ps) = full_url config u"
  by (simp_all add: target_def upload_initial_def download_initial_def)

lemma show_nat_500: "show_nat 500 = ''500''"
  by (simp add: show_nat.simps digit_char_def)

lemma show_nat_200: "show_nat 200 = ''200''"
  by (simp add: show_nat.simps digit_char_def)

lemma step1_lines_200:
  "split_on (CHR 0x0A) (trim (write_out w u \<lparr>status = 200, data = d, headers = hs\<rparr>)) = [''200'']"
  by (simp add: write_out_def http_code_def redirect_url_def trim_def is_space_def show_nat_200)

lemma digit_char_is_digit: "n < 10 \<Longrightarrow> is_digit (digit_char n)"
proof -
  assume "n < 10"
  then have "n < length ''0123456789''" by simp
  then have "''0123456789'' ! n \<in> set ''0123456789''" by (rule nth_mem)
  then show ?thesis by (simp only: is_digit_def digit_char_def)
qed

lemma show_nat_digits: "c \<in> set (show_nat n) \<Longrightarrow> is_digit c"
proof (induction n arbitrary: c rule: show_nat.induct)
  case (1 n)
  show ?case
  proof (cases "n < 10")
    case True
    with "1.prems" show ?thesis
      by (simp add: show_nat.simps [of n] digit_char_is_digit)
  next
    case False
    with "1.prems" "1.IH" show ?thesis
      by (auto simp add: show_nat.simps [of n] digit_char_is_digit)
  qed
qed

lemma show_nat_nonempty: "show_nat n \<noteq> []"
  by (simp add: show_nat.simps [of n])

lemma digit_not_space: "is_digit c \<Longrightarrow> \<not> is_space c \<and> c \<noteq> CHR 0x0A"
  by (auto simp add: is_digit_def is_space_def)

lemma http_code_digits: "c \<in> set (http_code s) \<Longrightarrow> is_digit c"
  by (auto simp add: http_code_def is_digit_def dest: show_nat_digits split: if_splits)

lemma http_code_nonempty: "http_code s \<noteq> []"
  by (simp add: http_code_def show_nat_nonempty)

lemma dropWhile_none: "\<forall>c \<in> set s. \<not> P c \<Longrightarrow> dropWhile P s = s"
  by (cases s) simp_all

lemma trim_wrapped:
  assumes "s \<noteq> []" and "\<forall>c \<in> set s. \<not> is_space c"
  shows "trim ([CHR 0x0A] @ s @ [CHR 0x0A]) = s"
proof -
  have nl: "is_space (CHR 0x0A)" by (simp add: is_space_def)
  from assms have fore: "dropWhile is_space s = s" by (simp add: dropWhile_none)
  from assms have rear: "dropWhile is_space (rev s) = rev s" by (simp add: dropWhile_none)
  from assms obtain x where "x \<in> set s" and "\<not> is_space x"
    by (cases s) auto
  then show ?thesis
    using nl fore rear assms(1)
    by (auto simp add: trim_def dropWhile_append)
qed

lemma split_on_none: "c \<notin> set s \<Longrightarrow> split_on c s = [s]"
  by (induction s) auto

lemma step1_lines_no_redirect:
  assumes "redirect_url w u r1 = []"
  shows "split_on (CHR 0x0A) (trim (write_out w u r1)) = [http_code (status r1)]"
proof -
  have "trim (write_out w u r1) = http_code (status r1)"
    using assms trim_wrapped [of "http_code (status r1)"] http_code_nonempty [of "status r1"]
      http_code_digits [of _ "status r1"] digit_not_space
    by (auto simp add: write_out_def)
  moreover have "CHR 0x0A \<notin> set (http_code (status r1))"
    using http_code_digits [of "CHR 0x0A" "status r1"] digit_not_space [of "CHR 0x0A"] by auto
  ultimately show ?thesis by (simp add: split_on_none)
qed

text \<open>
  The attachment upload for an answer without a redirect URL: every status that is no
  3xx, and a 3xx without a location.
\<close>

lemma uploadAttachment_without_redirect:
  assumes "env w ''DOORAY_API_TOKEN'' = Some tok" and "tok \<noteq> []"
    and "files w (filePath args) = Some bytes"
    and "curl_post_file apiUrl tok (filePath args) w = (Response r1, w1)"
    and "apiUrl = (case env w ''DOORAY_API_BASE_URL'' of
                     None \<Rightarrow> ''https://api.dooray.com''
                   | Some b \<Rightarrow> if b = [] then ''https://api.dooray.com'' else b)
                  @ ''/project/v1/projects/'' @ projectId args @ ''/posts/'' @ taskId args @ ''/files''"
    and "redirect_url w apiUrl r1 = []"
    and "shell_plain apiUrl" and "shell_plain tok" and "shell_plain (filePath args)"
  shows "uploadAttachmentHandler args w =
           (Inr (error_result ''Error: Unexpected HTTP status: undefined''), w1)"
  using assms step1_lines_no_redirect [OF assms(6)]
  by (simp add: uploadAttachmentHandler_def uploadAttachment_try_def at_index_def formatError_def
      Let_def)

text \<open>
  C3.  A 2xx answer to the initial request is to be returned as it is, with no second
  request.  \<open>uploadFile\<close> and \<open>downloadFile\<close> do so (\<open>uploadFile_direct\<close>,
  \<open>downloadFile_direct\<close>).  The attachment upload that shells out does not: its first
  command discards the body, and when the service answers 200 the text printed is
  a newline, \<open>200\<close>, a newline and an empty redirect URL, which \<open>trim\<close> and \<open>split\<close>
  turn into the single line \<open>200\<close>; the status is then read at index \<open>-1\<close>, is
  \<open>undefined\<close>, and the handler reports an unexpected status instead of the answer.
  The same happens for every answer without a redirect URL
  (\<open>uploadAttachment_without_redirect\<close>), so a 200 or 201 answer never reaches the
  branch written for it, which would send the file a second time.
\<close>

theorem uploadAttachment_direct_answer:
  "uploadAttachmentHandler \<lparr>projectId = ''1'', taskId = ''2'', filePath = ''/tmp/report.pdf''\<rparr>
       (answering 200 (success_envelope (Obj [(''id'', Str ''f1'')])) [])
     = (Inr (error_result ''Error: Unexpected HTTP status: undefined''),
        (answering 200 (success_envelope (Obj [(''id'', Str ''f1'')])) [])
          \<lparr>sent := [\<lparr>http_method = POST, baseURL = None,
                      url = ''https://api.dooray.com/project/v1/projects/1/posts/2/files'',
                      params = None, body = FormBody [(''file'', ''report.pdf'', ''%PDF'')],
                      req_headers = [(''Authorization'', ''dooray-api secret'')],
                      timeout = None, maxRedirects = Some 0, responseType = None\<rparr>]\<rparr>)"
  by (simp add: uploadAttachmentHandler_def uploadAttachment_try_def answering_def world_of_def
      curl_post_file_def basename_def step1_lines_200 at_index_def formatError_def Let_def)

text \<open>
  Against C5 as stated: a 500 answer to the initial request of an upload makes the call
  throw the axios error, whose message names the status; it is no \<open>DoorayAPIError\<close>
  and its message is not \<open>unexpected status\<close>.
\<close>

theorem transfer_unexpected_status_counterexample:
  "fst (uploadFile example_config ''/drive/v1/drives/d1/files/f0'' [(''file'', ''a.png'', ''PNG'')] []
          (answering 500 (Str []) []))
     = Inl (JError AxiosErrorC ''Request failed with status code 500''
              [(''response'', JObj [(''status'', JNum 500), (''data'', JStr []), (''headers'', JObj [])])])
   \<and> \<not> instanceof_DoorayAPIError
         (JError AxiosErrorC ''Request failed with status code 500''
            [(''response'', JObj [(''status'', JNum 500), (''data'', JStr []), (''headers'', JObj [])])])"
proof -
  have "remote (answering 500 (Str []) []) (sent (answering 500 (Str []) []))
          (upload_initial example_config ''/drive/v1/drives/d1/files/f0'' [(''file'', ''a.png'', ''PNG'')] [])
        = Response \<lparr>status = 500, data = Str [], headers = []\<rparr>"
    by (simp add: remote_answering target_initial full_url_example has_scheme_examples)
  from uploadFile_rejected [OF this] show ?thesis
    by (simp add: response_js_def show_nat_500)
qed


text \<open>
  C5, amended.  When the initial request of \<open>uploadFile\<close> or \<open>downloadFile\<close> is answered
  with a status that is neither 307 nor 2xx, no further request is issued and the call
  throws the axios error for that answer: its message is
  \<open>Request failed with status code\<close> followed by the status, the response with its status
  is attached, and it is not a \<open>DoorayAPIError\<close>.
\<close>

theorem transfer_rejected_status:
  assumes "status r1 \<noteq> 307" and "\<not> (200 \<le> status r1 \<and> status r1 < 300)"
  shows "(remote w (sent w) (upload_initial config u formData hs) = Response r1 \<longrightarrow>
            uploadFile config u formData hs w =
              (Inl (AxiosError (BadStatus r1)),
               w\<lparr>sent := sent w @ [upload_initial config u formData hs]\<rparr>))
       \<and> (remote w (sent w) (download_initial config u ps) = Response r1 \<longrightarrow>
            downloadFile config u ps w =
              (Inl (AxiosError (BadStatus r1)),
               w\<lparr>sent := sent w @ [download_initial config u ps]\<rparr>))
       \<and> get_prop (AxiosError (BadStatus r1)) ''message''
             = JStr (''Request failed with status code '' @ show_nat (status r1))
       \<and> get_prop (get_prop (AxiosError (BadStatus r1)) ''response'') ''status''
             = JNum (int (status r1))
       \<and> \<not> instanceof_DoorayAPIError (AxiosError (BadStatus r1))"
  using assms uploadFile_rejected [of w config u formData hs r1]
    downloadFile_rejected [of w config u ps r1]
  by (simp add: response_js_def)

theorem transfer_rejected_status_witness:
  "uploadFile example_config ''/drive/v1/drives/d1/files/f0'' [(''file'', ''a.png'', ''PNG'')] []
       (answering 500 (Str []) [])
     = (Inl (JError AxiosErrorC ''Request failed with status code 500''
               [(''response'', JObj [(''status'', JNum 500), (''data'', JStr []), (''headers'', JObj [])])]),
        (answering 500 (Str []) [])
          \<lparr>sent := [upload_initial example_config ''/drive/v1/drives/d1/files/f0''
                      [(''file'', ''a.png'', ''PNG'')] []]\<rparr>)
   \<and> downloadFile example_config ''/drive/v1/drives/d1/files/f0'' (Some [(''media'', Str ''raw'')])
       (answering 500 (Str []) [])
     = (Inl (JError AxiosErrorC ''Request failed with status code 500''
               [(''response'', JObj [(''status'', JNum 500), (''data'', JStr []), (''headers'', JObj [])])]),
        (answering 500 (Str []) [])
          \<lparr>sent := [download_initial example_config ''/drive/v1/drives/d1/files/f0''
                      (Some [(''media'', Str ''raw'')])]\<rparr>)"
  using transfer_rejected_status [where ?r1.0 = "\<lparr>status = 500, data = Str [], headers = []\<rparr>"
      and w = "answering 500 (Str []) []"
      and config = example_config and u = "''/drive/v1/drives/d1/files/f0''"
      and formData = "[(''file'', ''a.png'', ''PNG'')]" and hs = "[]"
      and ps = "Some [(''media'', Str ''raw'')]"]
  by (simp add: remote_answering target_initial full_url_example has_scheme_examples
      answering_fields response_js_def show_nat_500)

text \<open>
  C10.  When the initial request of \<open>uploadFile\<close> or \<open>downloadFile\<close> is answered with
  status 307 and no \<open>Location\<close> header (or an empty one), the call throws a
  \<open>DoorayAPIError\<close> with the message \<open>307 redirect received but no Location header found\<close>
  and no second request is issued.
\<close>

theorem redirect_without_location:
  assumes "status r1 = 307"
    and "map_of (headers r1) ''location'' = None \<or> map_of (headers r1) ''location'' = Some []"
  shows "(remote w (sent w) (upload_initial config u formData hs) = Response r1 \<longrightarrow>
            uploadFile config u formData hs w =
              (Inl (DoorayAPIError ''307 redirect received but no Location header found''
                      JUndefined JUndefined),
               w\<lparr>sent := sent w @ [upload_initial config u formData hs]\<rparr>))
       \<and> (remote w (sent w) (download_initial config u ps) = Response r1 \<longrightarrow>
            downloadFile config u ps w =
              (Inl (DoorayAPIError ''307 redirect received but no Location header found''
                      JUndefined JUndefined),
               w\<lparr>sent := sent w @ [download_initial config u ps]\<rparr>))"
  using assms uploadFile_no_location [of w config u formData hs r1]
    downloadFile_no_location [of w config u ps r1]
  by (simp add: no_location_def)

theorem redirect_without_location_witness:
  "uploadFile example_config ''/drive/v1/drives/d1/files/f0'' [(''file'', ''a.png'', ''PNG'')] []
       (answering 307 (Str []) [(''content-length'', ''0'')])
     = (Inl (DoorayAPIError ''307 redirect received but no Location header found''
               JUndefined JUndefined),
        (answering 307 (Str []) [(''content-length'', ''0'')])
          \<lparr>sent := [upload_initial example_config ''/drive/v1/drives/d1/files/f0''
                      [(''file'', ''a.png'', ''PNG'')] []]\<rparr>)
   \<and> downloadFile example_config ''/drive/v1/drives/d1/files/f0'' (Some [(''media'', Str ''raw'')])
       (answering 307 (Str []) [(''content-length'', ''0'')])
     = (Inl (DoorayAPIError ''307 redirect received but no Location header found''
               JUndefined JUndefined),
        (answering 307 (Str []) [(''content-length'', ''0'')])
          \<lparr>sent := [download_initial example_config ''/drive/v1/drives/d1/files/f0''
                      (Some [(''media'', Str ''raw'')])]\<rparr>)"
  using redirect_without_location [where ?r1.0 = "\<lparr>status = 307, data = Str [], headers = [(''content-length'', ''0'')]\<rparr>"
      and w = "answering 307 (Str []) [(''content-length'', ''0'')]"
      and config = example_config and u = "''/drive/v1/drives/d1/files/f0''"
      and formData = "[(''file'', ''a.png'', ''PNG'')]" and hs = "[]"
      and ps = "Some [(''media'', Str ''raw'')]"]
  by (simp add: remote_answering target_initial full_url_example has_scheme_examples
      answering_fields)

section \<open>Properties of the dispatcher\<close>

lemma registry_lookup_absent:
  "map_of reg name = None \<Longrightarrow> name \<notin> set object_prototype_keys \<Longrightarrow> registry_lookup reg name = Absent"
  by (simp add: registry_lookup_def)

lemma registry_lookup_own:
  "map_of reg name = Some t \<Longrightarrow> registry_lookup reg name = Own t"
  by (simp add: registry_lookup_def)

lemma dispatch_absent:
  "map_of reg name = None \<Longrightarrow> name \<notin> set object_prototype_keys \<Longrightarrow>
     dispatch reg name args w =
       (Inr (ToolResult (error_result (''Error: Unknown tool '' @ [CHR 0x27] @ name @ [CHR 0x27]))), w)"
  by (simp add: dispatch_def registry_lookup_absent)

text \<open>
  Against C6 as stated: the text for an unknown name begins with \<open>Error: \<close>, so it is
  not exactly \<open>Unknown tool '<name>'\<close>.
\<close>

theorem unknown_tool_text_counterexample:
  "dispatch example_registry ''unknown-tool'' (Some []) (answering 200 Null [])
     = (Inr (ToolResult (error_result (''Error: Unknown tool '' @ [CHR 0x27] @ ''unknown-tool'' @ [CHR 0x27]))),
        answering 200 Null [])
   \<and> ''Error: Unknown tool '' @ [CHR 0x27] @ ''unknown-tool'' @ [CHR 0x27]
       \<noteq> ''Unknown tool '' @ [CHR 0x27] @ ''unknown-tool'' @ [CHR 0x27]"
  by (simp add: dispatch_def registry_lookup_def example_registry_def object_prototype_keys_def)

text \<open>
  C6, amended.  For every name that is neither a key of the registry nor a member of
  \<open>Object.prototype\<close>, the dispatcher returns an error result whose text is exactly
  \<open>Error: Unknown tool '<name>'\<close>, the world is left as it was, and the calls that follow
  are served as they would have been without it.
\<close>

theorem unknown_tool_result:
  assumes "map_of reg name = None" and "name \<notin> set object_prototype_keys"
  shows "dispatch reg name args w =
           (Inr (ToolResult (error_result (''Error: Unknown tool '' @ [CHR 0x27] @ name @ [CHR 0x27]))), w)
       \<and> serve reg ((name, args) # calls) w =
           (Inr (ToolResult (error_result (''Error: Unknown tool '' @ [CHR 0x27] @ name @ [CHR 0x27])))
              # fst (serve reg calls w),
            snd (serve reg calls w))"
  using assms by (simp add: dispatch_absent split: prod.splits)

lemma path_elem_line:
  "(if nullish (path_elem_js e) then [] else to_string (path_elem_js e)) = path_elem_text e"
  by (cases e) (simp_all add: show_int_def)

lemma issue_line_issue_js: "issue_line (issue_js i) = Inr (issue_text i)"
  by (simp add: issue_line_def issue_js_def issue_text_def path_elem_line comp_def)

lemma map_throwing_issues:
  "map_throwing issue_line (map issue_js issues) = Inr (map issue_text issues)"
  by (induction issues) (simp_all add: issue_line_issue_js)

lemma dispatch_catch_ZodError:
  "dispatch_catch (ZodError m issues) =
     Inr (error_result (''Validation Error: '' @ join '', '' (map issue_text issues)))"
  by (simp add: dispatch_catch_def ZodError_def map_throwing_issues)

lemma dispatch_catch_plain:
  "\<not> has_errors e \<Longrightarrow>
     dispatch_catch e =
       Inr (error_result (''Error: '' @ (if instanceof_Error e then to_string (get_prop e ''message'')
                                         else to_string e)))"
  by (simp add: dispatch_catch_def)

text \<open>
  C7.  For every registered name whose schema rejects the arguments (\<open>parse\<close> throws a
  \<open>ZodError\<close>), the dispatcher returns an error result whose text is \<open>Validation Error: \<close>
  followed by the lines of the issues, each \<open>path: message\<close>, joined by a comma and a
  space.  The world is returned unchanged, so no request is sent, and the outcome is the
  same whatever the handler is: the handler is not run.
\<close>

theorem validation_failure:
  assumes "map_of reg name = Some t"
    and "schema t (case args of None \<Rightarrow> [] | Some a \<Rightarrow> a) = Inl (ZodError m issues)"
  shows "dispatch reg name args w =
           (Inr (ToolResult (error_result (''Validation Error: '' @ join '', '' (map issue_text issues)))), w)
       \<and> dispatch ((name, t\<lparr>handler := h\<rparr>) # reg) name args w = dispatch reg name args w"
  using assms
  by (simp add: dispatch_def registry_lookup_def caught_def dispatch_catch_ZodError)

lemma getProjectSchema_missing:
  "getProjectSchema [] = Inl (invalid_type ''projectId'' ''string'' ''undefined'' ''Required'')"
  by (simp add: getProjectSchema_def)

theorem validation_failure_witness:
  "dispatch example_registry ''get-project'' (Some []) (answering 200 Null [])
     = (Inr (ToolResult (error_result ''Validation Error: projectId: Required'')), answering 200 Null [])"
  using validation_failure [of example_registry "''get-project''" "getProjectEntry example_config"
      "Some []" _ "[\<lparr>code = ''invalid_type'', path = [PKey ''projectId''], message = ''Required''\<rparr>]"
      "answering 200 Null []"]
  by (simp add: example_registry_def getProjectEntry_def getProjectSchema_missing invalid_type_def
      issue_text_def)

text \<open>The schema of the project tool, written out above, is what \<open>parse\<close> computes.\<close>

lemma getProjectSchema_parse:
  "getProjectSchema fs = zod_parse (ZObject [(''projectId'', ZString)]) fs"
proof (cases "map_of fs ''projectId''")
  case None
  then show ?thesis
    by (simp add: getProjectSchema_def zod_parse_def invalid_type_def mk_issue_def
        received_type_def type_message_def)
next
  case (Some v)
  then show ?thesis
    by (cases v)
      (simp_all add: getProjectSchema_def zod_parse_def invalid_type_def mk_issue_def
        received_type_def type_message_def)
qed

lemma zod_parse_throws: "zod_parse sch fs = Inl e \<Longrightarrow> \<exists>m issues. e = ZodError m issues"
  by (auto simp add: zod_parse_def split: prod.splits list.splits option.splits)

lemma dispatch_inherited:
  assumes "map_of reg name = None" and "name \<in> set object_prototype_keys"
  shows "dispatch reg name args w =
           (Inr (ToolResult (error_result (''Error: Cannot read properties of undefined (reading ''
                               @ [CHR 0x27] @ ''parse'' @ [CHR 0x27] @ '')''))), w)"
  using assms
  by (simp add: dispatch_def registry_lookup_def caught_def dispatch_catch_def cannot_read_def
      TypeError_def)

lemma well_formed_error_result: "well_formed (error_result t)"
  by (simp add: well_formed_def error_result_def)

text \<open>
  What the dispatcher itself adds is sound: it returns a well-formed result whenever
  what is thrown has no \<open>errors\<close> property or is a \<open>ZodError\<close>, and what the handler
  returns is well formed.
\<close>

lemma dispatch_returns_result:
  assumes "\<And>t fs e. map_of reg name = Some t \<Longrightarrow> schema t fs = Inl e \<Longrightarrow>
             \<not> has_errors e \<or> (\<exists>m issues. e = ZodError m issues)"
    and "\<And>t a e w'. map_of reg name = Some t \<Longrightarrow> handler t a w = (Inl e, w') \<Longrightarrow>
             \<not> has_errors e \<or> (\<exists>m issues. e = ZodError m issues)"
    and "\<And>t a x w'. map_of reg name = Some t \<Longrightarrow> handler t a w = (Inr x, w') \<Longrightarrow> is_well_formed x"
  shows "\<exists>x. fst (dispatch reg name args w) = Inr x \<and> is_well_formed x"
proof (cases "registry_lookup reg name")
  case Absent
  then show ?thesis by (simp add: dispatch_def well_formed_error_result)
next
  case Inherited
  then show ?thesis
    by (simp add: dispatch_def caught_def dispatch_catch_plain cannot_read_def TypeError_def
        well_formed_error_result)
next
  case (Own t)
  then have t: "map_of reg name = Some t"
    by (auto simp add: registry_lookup_def split: option.splits if_splits)
  have benign: "\<exists>x. caught e = Inr x \<and> is_well_formed x"
    if "\<not> has_errors e \<or> (\<exists>m issues. e = ZodError m issues)" for e
    using that
    by (auto simp add: caught_def dispatch_catch_plain dispatch_catch_ZodError well_formed_error_result)
  show ?thesis
  proof (cases "schema t (case args of None \<Rightarrow> [] | Some a \<Rightarrow> a)")
    case (Inl e)
    with assms(1) [OF t] have "\<exists>x. caught e = Inr x \<and> is_well_formed x"
      by (intro benign) blast
    with Own Inl show ?thesis by (auto simp add: dispatch_def)
  next
    case (Inr a)
    obtain x w' where hw: "handler t a w = (x, w')" by (cases "handler t a w")
    show ?thesis
    proof (cases x)
      case (Inl e)
      with assms(2) [OF t] hw have "\<exists>x. caught e = Inr x \<and> is_well_formed x"
        by (intro benign) blast
      with Own Inr hw Inl show ?thesis by (auto simp add: dispatch_def)
    next
      case (Inr r)
      with assms(3) [OF t] hw have "is_well_formed r" by blast
      with Own \<open>schema t _ = Inr a\<close> hw Inr show ?thesis by (simp add: dispatch_def)
    qed
  qed
qed

section \<open>Properties of the calls through the client\<close>

lemma client_request_401:
  assumes "remote w (sent w) (base_request config m u ps b hs) = Response r" and "status r = 401"
  shows "client_request config m u ps b hs w =
           (Inl (AuthenticationError ''Invalid or expired API token''),
            w\<lparr>sent := sent w @ base_request config m u ps b hs
                 # followed w (base_request config m u ps b hs)\<rparr>)"
  using assms issued_response [OF assms(1)]
  by (simp add: client_request_def axios_request_def settle_def default_validateStatus_def)

lemma client_request_2xx:
  assumes "remote w (sent w) (base_request config m u ps b hs) = Response r"
    and "200 \<le> status r" and "status r < 300"
  shows "client_request config m u ps b hs w =
           (Inr r, w\<lparr>sent := sent w @ base_request config m u ps b hs
                 # followed w (base_request config m u ps b hs)\<rparr>)"
  using assms issued_response [OF assms(1)]
  by (simp add: client_request_def axios_request_def settle_def default_validateStatus_def)

lemma formatError_AuthenticationError:
  "formatError (AuthenticationError m) = ''Dooray API Error: '' @ m @ '' (Status: 401)''"
  by (simp add: formatError_def AuthenticationError_def show_int_def show_nat.simps digit_char_def)


lemma target_base_request:
  "target (base_request example_config m u ps b hs)
     = (if isAbsoluteURL u then u else combineURLs ''https://api.dooray.com'' u)"
  by (simp add: target_def base_request_def example_config_def base_url_def DEFAULT_BASE_URL_def)

lemma example_urls:
  "\<not> isAbsoluteURL ''/common/v1/members/me''"
  "has_scheme (combineURLs ''https://api.dooray.com'' ''/common/v1/members/me'')"
  "\<not> isAbsoluteURL ''/project/v1/projects/7''"
  "has_scheme (combineURLs ''https://api.dooray.com'' ''/project/v1/projects/7'')"
  "\<not> isAbsoluteURL ''/project/v1/projects/1/posts/2/logs/3''"
  "has_scheme (combineURLs ''https://api.dooray.com'' ''/project/v1/projects/1/posts/2/logs/3'')"
  by code_simp+

section \<open>Properties of the comment update tool\<close>

lemma updateTaskCommentSchema_ids:
  "updateTaskCommentSchema [(''projectId'', Str ''1''), (''taskId'', Str ''2''), (''commentId'', Str ''3'')]
     = Inr (Obj [(''projectId'', Str ''1''), (''taskId'', Str ''2''), (''commentId'', Str ''3'')])"
  by (simp add: updateTaskCommentSchema_def zod_parse_def)

lemma updateTaskComment_ids:
  "updateTaskComment config
       (object_literal [(''projectId'', Some (Str p)), (''taskId'', Some (Str t)),
                        (''commentId'', Some (Str c)), (''body'', None), (''attachFileIds'', None)]) w
     = client_put config (PROJECTS_BASE @ ''/projects/'' @ p @ ''/posts/'' @ t @ ''/logs/'' @ c)
         (JsonBody (Obj [])) [] w"
  by (simp add: updateTaskComment_def object_literal_def truthy_j_def of_json_opt_def Let_def)

text \<open>Whatever the call throws, the handler returns its formatted text as a bare string.\<close>

lemma updateTaskCommentHandler_catch:
  assumes "updateTaskComment config
             (object_literal [(''projectId'', json_get args ''projectId''),
                              (''taskId'', json_get args ''taskId''),
                              (''commentId'', json_get args ''commentId''),
                              (''body'', json_get args ''body''),
                              (''attachFileIds'', json_get args ''attachFileIds'')]) w = (Inl e, w')"
  shows "updateTaskCommentHandler config args w = (Inr (BareString (formatError e)), w')"
  using assms by (simp add: updateTaskCommentHandler_def)

text \<open>
  C1.  The dispatcher is to return, for every call, a result of the shape
  \<open>{content: [{type: "text", text}], isError?}\<close>.  It hands back what the tool's handler
  returns, and the handler of \<open>update-task-comment\<close> returns from its \<open>catch\<close> block the
  string of \<open>formatError\<close> itself: when the service answers the update with status 401,
  the dispatcher returns the bare string
  \<open>Dooray API Error: Invalid or expired API token (Status: 401)\<close>, which has no content
  list.  The handler of \<open>get-task-comment-list\<close> has the same \<open>catch\<close> block.
\<close>

theorem dispatch_bare_string:
  "dispatch example_registry ''update-task-comment''
       (Some [(''projectId'', Str ''1''), (''taskId'', Str ''2''), (''commentId'', Str ''3'')])
       (answering 401 (Str []) [])
     = (Inr (BareString ''Dooray API Error: Invalid or expired API token (Status: 401)''),
        (answering 401 (Str []) [])
          \<lparr>sent := [base_request example_config PUT ''/project/v1/projects/1/posts/2/logs/3'' None
                       (JsonBody (Obj [])) []]\<rparr>)
   \<and> \<not> is_well_formed (BareString ''Dooray API Error: Invalid or expired API token (Status: 401)'')"
proof -
  let ?w = "answering 401 (Str []) []"
  let ?req = "base_request example_config PUT ''/project/v1/projects/1/posts/2/logs/3'' None
                (JsonBody (Obj [])) []"
  have "remote ?w (sent ?w) ?req = Response \<lparr>status = 401, data = Str [], headers = []\<rparr>"
    by (simp add: remote_answering target_base_request example_urls)
  from client_request_401 [OF this]
  have "client_put example_config ''/project/v1/projects/1/posts/2/logs/3'' (JsonBody (Obj [])) [] ?w
      = (Inl (AuthenticationError ''Invalid or expired API token''), ?w\<lparr>sent := [?req]\<rparr>)"
    by (simp add: client_put_def with_result_def followed_def answering_fields)
  then have "updateTaskCommentHandler example_config
       (Obj [(''projectId'', Str ''1''), (''taskId'', Str ''2''), (''commentId'', Str ''3'')]) ?w
     = (Inr (BareString ''Dooray API Error: Invalid or expired API token (Status: 401)''),
        ?w\<lparr>sent := [?req]\<rparr>)"
    using updateTaskCommentHandler_catch [of example_config
        "Obj [(''projectId'', Str ''1''), (''taskId'', Str ''2''), (''commentId'', Str ''3'')]" ?w
        "AuthenticationError ''Invalid or expired API token''" "?w\<lparr>sent := [?req]\<rparr>"]
      updateTaskComment_ids [of example_config "''1''" "''2''" "''3''" ?w]
    by (simp add: PROJECTS_BASE_def formatError_AuthenticationError)
  then show ?thesis
    by (simp add: dispatch_def registry_lookup_def example_registry_def updateTaskCommentEntry_def
        updateTaskCommentSchema_ids)
qed

section \<open>Properties of the member-info tool\<close>

lemma dispatch_member_info:
  assumes "map_of reg ''get-my-member-info'' = Some (getMyMemberInfoEntry config)"
  shows "dispatch reg ''get-my-member-info'' args w =
           returning_object (getMyMemberInfoHandler config (Obj []) w)"
  using assms
  by (simp add: dispatch_def registry_lookup_def getMyMemberInfoEntry_def getMyMemberInfoSchema_def
      returning_object_def getMyMemberInfoHandler_def split: prod.splits sum.splits)









lemma stringify_alice: "stringify [] alice = alice_text"
  by code_simp

lemma member_info_result:
  assumes "map_of reg ''get-my-member-info'' = Some (getMyMemberInfoEntry config)"
    and "remote w (sent w) (base_request config GET (COMMON_BASE @ ''/members/me'') None NoBody [])
           = Response r"
    and "200 \<le> status r" and "status r < 300"
    and "json_get (data r) ''header'' = Some h" and "h \<noteq> Null"
    and "truthy_j (json_get h ''isSuccessful'')"
  shows "dispatch reg ''get-my-member-info'' args w =
           (Inr (ToolResult \<lparr>content = [\<lparr>type = ''text'',
                              text' = JSON_stringify (json_get (data r) ''result'')\<rparr>],
                 isError = None\<rparr>),
            w\<lparr>sent := sent w @ base_request config GET (COMMON_BASE @ ''/members/me'') None NoBody []
                 # followed w (base_request config GET (COMMON_BASE @ ''/members/me'') None NoBody [])\<rparr>)"
  using assms(1) client_request_2xx [OF assms(2,3,4)] extractResult_success [OF assms(5,6,7)]
  by (simp add: dispatch_member_info returning_object_def getMyMemberInfoHandler_def
      getMyMemberInfo_def client_get_def with_result_def)

text \<open>
  C9, amended.  The dispatch of \<open>get-my-member-info\<close>, when the service answers with a
  successful envelope whose payload is \<open>{id: "42", name: "Alice"}\<close>, returns a result
  without the \<open>isError\<close> field whose single text item is the payload printed by
  \<open>JSON.stringify(payload, null, 2)\<close>: four lines, indented by two spaces, with a space
  after each colon.  The requests on the wire are the one to \<open>/common/v1/members/me\<close>
  and those of the redirects the library followed, if any.
\<close>

theorem member_info_success:
  assumes "map_of reg ''get-my-member-info'' = Some (getMyMemberInfoEntry config)"
    and "remote w (sent w) (base_request config GET (COMMON_BASE @ ''/members/me'') None NoBody [])
           = Response r"
    and "200 \<le> status r" and "status r < 300"
    and "json_get (data r) ''header'' = Some h" and "h \<noteq> Null"
    and "truthy_j (json_get h ''isSuccessful'')"
    and "json_get (data r) ''result'' = Some alice"
  shows "dispatch reg ''get-my-member-info'' args w =
           (Inr (ToolResult \<lparr>content = [\<lparr>type = ''text'', text' = Some alice_text\<rparr>], isError = None\<rparr>),
            w\<lparr>sent := sent w @ base_request config GET (COMMON_BASE @ ''/members/me'') None NoBody []
                 # followed w (base_request config GET (COMMON_BASE @ ''/members/me'') None NoBody [])\<rparr>)"
  using member_info_result [OF assms(1-7)] assms(8)
  by (simp add: JSON_stringify_def stringify_alice)

lemma remote_members_me:
  "remote (answering s d hs) seen
       (base_request example_config GET (COMMON_BASE @ ''/members/me'') None NoBody [])
     = Response \<lparr>status = s, data = d, headers = hs\<rparr>"
  by (simp add: remote_answering target_base_request COMMON_BASE_def example_urls)

theorem member_info_success_witness:
  "dispatch example_registry ''get-my-member-info'' (Some []) (answering 200 (success_envelope alice) [])
     = (Inr (ToolResult \<lparr>content = [\<lparr>type = ''text'', text' = Some alice_text\<rparr>], isError = None\<rparr>),
        (answering 200 (success_envelope alice) [])
          \<lparr>sent := [base_request example_config GET (COMMON_BASE @ ''/members/me'') None NoBody []]\<rparr>)"
  using member_info_success [where reg = example_registry and config = example_config
      and w = "answering 200 (success_envelope alice) []"
      and r = "\<lparr>status = 200, data = success_envelope alice, headers = []\<rparr>"
      and h = "Obj [(''isSuccessful'', Bool True), (''resultCode'', Num 0), (''resultMessage'', Str [])]"
      and args = "Some []"]
  by (simp add: remote_members_me answering_fields followed_def example_registry_def
      success_envelope_def truthy_j_def of_json_opt_def)

text \<open>
  Against C9 as stated: the text is the indented one, not the compact
  \<open>{"id":"42","name":"Alice"}\<close>.
\<close>

theorem member_info_text_counterexample:
  "fst (dispatch example_registry ''get-my-member-info'' (Some []) (answering 200 (success_envelope alice) []))
     = Inr (ToolResult \<lparr>content = [\<lparr>type = ''text'', text' = Some alice_text\<rparr>], isError = None\<rparr>)
   \<and> alice_text \<noteq> alice_compact"
  using member_info_result [where reg = example_registry and config = example_config
      and w = "answering 200 (success_envelope alice) []"
      and r = "\<lparr>status = 200, data = success_envelope alice, headers = []\<rparr>"
      and h = "Obj [(''isSuccessful'', Bool True), (''resultCode'', Num 0), (''resultMessage'', Str [])]"
      and args = "Some []"]
  by (simp add: remote_members_me answering_fields example_registry_def success_envelope_def
      truthy_j_def of_json_opt_def JSON_stringify_def stringify_alice alice_text_def alice_compact_def)

theorem unknown_tool_result_witness:
  "dispatch example_registry ''unknown-tool'' (Some []) (answering 200 (success_envelope alice) [])
     = (Inr (ToolResult (error_result (''Error: Unknown tool '' @ [CHR 0x27] @ ''unknown-tool'' @ [CHR 0x27]))),
        answering 200 (success_envelope alice) [])
   \<and> serve example_registry [(''unknown-tool'', Some []), (''get-my-member-info'', None)]
         (answering 200 (success_envelope alice) [])
     = ([Inr (ToolResult (error_result (''Error: Unknown tool '' @ [CHR 0x27] @ ''unknown-tool'' @ [CHR 0x27]))),
         Inr (ToolResult \<lparr>content = [\<lparr>type = ''text'', text' = Some alice_text\<rparr>], isError = None\<rparr>)],
        (answering 200 (success_envelope alice) [])
          \<lparr>sent := [base_request example_config GET (COMMON_BASE @ ''/members/me'') None NoBody []]\<rparr>)"
  using unknown_tool_result [of example_registry "''unknown-tool''" "Some []"
      "answering 200 (success_envelope alice) []" "[(''get-my-member-info'', None)]"]
    member_info_result [where reg = example_registry and config = example_config
      and w = "answering 200 (success_envelope alice) []"
      and r = "\<lparr>status = 200, data = success_envelope alice, headers = []\<rparr>"
      and h = "Obj [(''isSuccessful'', Bool True), (''resultCode'', Num 0), (''resultMessage'', Str [])]"
      and args = None]
  by (simp add: remote_members_me answering_fields followed_def example_registry_def
      success_envelope_def truthy_j_def of_json_opt_def JSON_stringify_def stringify_alice
      object_prototype_keys_def)

text \<open>
  A successful envelope without a \<open>result\<close> makes the text of the item \<open>undefined\<close>:
  the result has a content item without text.
\<close>

lemma member_info_without_result:
  "fst (dispatch example_registry ''get-my-member-info'' None
          (answering 200 (Obj [(''header'', Obj [(''isSuccessful'', Bool True)])]) []))
     = Inr (ToolResult \<lparr>content = [\<lparr>type = ''text'', text' = None\<rparr>], isError = None\<rparr>)
   \<and> \<not> is_well_formed (ToolResult \<lparr>content = [\<lparr>type = ''text'', text' = None\<rparr>], isError = None\<rparr>)"
  using member_info_result [where reg = example_registry and config = example_config
      and w = "answering 200 (Obj [(''header'', Obj [(''isSuccessful'', Bool True)])]) []"
      and r = "\<lparr>status = 200, data = Obj [(''header'', Obj [(''isSuccessful'', Bool True)])], headers = []\<rparr>"
      and h = "Obj [(''isSuccessful'', Bool True)]"
      and args = None]
  by (simp add: remote_members_me example_registry_def truthy_j_def of_json_opt_def
      JSON_stringify_def well_formed_def)

end
